theory Spec2Isabelle
  imports Complex_Main "HOL-Library.Word" "HOL-Library.Stream"
begin

section \<open>Single-precision arithmetic\<close>

text \<open>
  The program computes with the C++ type \<^verbatim>\<open>float\<close> (IEEE 754 binary32 on the target).
  A value is a real number (every finite binary32 value is one), an infinity or NaN.
  The two zeros are identified: the program only adds, multiplies, divides by the
  literals \<^verbatim>\<open>10.0f\<close> and \<^verbatim>\<open>5.0f\<close> and compares with \<^verbatim>\<open>>\<close>, and none of these tells
  \<open>-0\<close> from \<open>+0\<close>. The characters \<^verbatim>\<open>sprintf\<close> prints for a value are not modelled.
\<close>

datatype float = Fin real | PInf | NInf | NaN

text \<open>
  \<open>exponent32 x\<close> is the binary exponent \<open>e\<close> of \<open>x\<close>, \<open>2 ^ e \<le> \<bar>x\<bar> < 2 ^ (e + 1)\<close>,
  kept inside the exponent range \<open>-126 .. 127\<close> of the format: the search upwards stops
  after 127 halvings, the search downwards after 126 doublings (the subnormal range).
\<close>

fun expo_hi :: "nat \<Rightarrow> real \<Rightarrow> int" where
  "expo_hi 0 x = 0"
| "expo_hi (Suc n) x = (if x < 2 then 0 else expo_hi n (x / 2) + 1)"

fun expo_lo :: "nat \<Rightarrow> real \<Rightarrow> int" where
  "expo_lo 0 x = 0"
| "expo_lo (Suc n) x = (if 1 \<le> x then 0 else expo_lo n (2 * x) - 1)"

definition exponent32 :: "real \<Rightarrow> int" where
  "exponent32 x = (if 1 \<le> \<bar>x\<bar> then expo_hi 127 \<bar>x\<bar> else expo_lo 126 \<bar>x\<bar>)"

text \<open>Rounding to the nearest integer, ties to even.\<close>

definition rne :: "real \<Rightarrow> int" where
  "rne q = (let f = \<lfloor>q\<rfloor>; d = q - of_int f
            in if d < 1 / 2 then f else if 1 / 2 < d then f + 1
               else if even f then f else f + 1)"

text \<open>
  \<open>round32 x\<close> is the binary32 value of the real \<open>x\<close> in the default rounding mode
  (to nearest, ties to even): a multiple of the unit in the last place of \<open>x\<close>, which is
  \<open>2 ^ (e - 23)\<close> for a significand of 24 bits; a result of magnitude \<open>2 ^ 128\<close> has
  left the format and is an infinity.
\<close>

definition ulp32 :: "real \<Rightarrow> real" where
  "ulp32 x = 2 powi (exponent32 x - 23)"

definition round32 :: "real \<Rightarrow> float" where
  "round32 x = (let y = of_int (rne (x / ulp32 x)) * ulp32 x
                in if 2 ^ 128 \<le> \<bar>y\<bar> then (if 0 < x then PInf else NInf) else Fin y)"

fun fadd :: "float \<Rightarrow> float \<Rightarrow> float" where
  "fadd (Fin a) (Fin b) = round32 (a + b)"
| "fadd NaN y = NaN"
| "fadd x NaN = NaN"
| "fadd PInf NInf = NaN"
| "fadd NInf PInf = NaN"
| "fadd PInf y = PInf"
| "fadd NInf y = NInf"
| "fadd (Fin a) y = y"

fun fmul :: "float \<Rightarrow> float \<Rightarrow> float" where
  "fmul (Fin a) (Fin b) = round32 (a * b)"
| "fmul NaN y = NaN"
| "fmul x NaN = NaN"
| "fmul (Fin a) PInf = (if a = 0 then NaN else if 0 < a then PInf else NInf)"
| "fmul (Fin a) NInf = (if a = 0 then NaN else if 0 < a then NInf else PInf)"
| "fmul PInf (Fin b) = (if b = 0 then NaN else if 0 < b then PInf else NInf)"
| "fmul NInf (Fin b) = (if b = 0 then NaN else if 0 < b then NInf else PInf)"
| "fmul PInf PInf = PInf"
| "fmul NInf NInf = PInf"
| "fmul PInf NInf = NInf"
| "fmul NInf PInf = NInf"

text \<open>
  Division. The program divides by the literals \<^verbatim>\<open>10.0f\<close> and \<^verbatim>\<open>5.0f\<close> only; a zero
  divisor is taken as \<open>+0\<close>.
\<close>

fun fdiv :: "float \<Rightarrow> float \<Rightarrow> float" where
  "fdiv (Fin a) (Fin b) =
     (if b = 0 then (if a = 0 then NaN else if 0 < a then PInf else NInf)
      else round32 (a / b))"
| "fdiv NaN y = NaN"
| "fdiv x NaN = NaN"
| "fdiv (Fin a) y = Fin 0"
| "fdiv PInf (Fin b) = (if 0 \<le> b then PInf else NInf)"
| "fdiv NInf (Fin b) = (if 0 \<le> b then NInf else PInf)"
| "fdiv x y = NaN"

text \<open>The comparison \<^verbatim>\<open>x > y\<close>: false as soon as one side is NaN.\<close>

fun fgt :: "float \<Rightarrow> float \<Rightarrow> bool" where
  "fgt (Fin a) (Fin b) = (b < a)"
| "fgt NaN y = False"
| "fgt x NaN = False"
| "fgt NInf y = False"
| "fgt x PInf = False"
| "fgt PInf y = True"
| "fgt (Fin a) NInf = True"

section \<open>The board and its environment\<close>

text \<open>The three analog inputs of the program: \<^verbatim>\<open>gasSensor(A3)\<close>, \<^verbatim>\<open>lm35(A1)\<close>, \<^verbatim>\<open>potentiometer(A0)\<close>.\<close>

datatype analog_in = GasSensor | Lm35 | Potentiometer

text \<open>
  A C string handed to the serial port: a literal, or the buffer \<^verbatim>\<open>str\<close> after
  \<^verbatim>\<open>sprintf(str, format, args)\<close>, kept as the format with its arguments.
\<close>

datatype cstring = Literal string | Sprintf string "float list"

text \<open>
  What the program does to the outside, in the order in which it does it. A poll of the
  serial port and a read of the ticker are no events: they take the next value of what the
  environment answers.
\<close>

datatype event =
    AnalogRead analog_in float
  | SleepFor nat
  | SerialWrite cstring
  | BuzzerPeriodMs nat
  | BuzzerWrite float
  | LedWrite bool

text \<open>
  The state: the globals of the program, the \<^verbatim>\<open>static\<close> locals of \<^verbatim>\<open>checkSensors\<close>, the
  two outputs, what the environment will answer (the values of the successive reads of each
  analog input, the outcome of the successive polls of the serial port: \<open>None\<close> when
  \<^verbatim>\<open>readable()\<close> is false, the byte otherwise, and the values of the successive
  reads of the microsecond ticker), and the events so far.
\<close>

record world =
  lm35Reading :: float
  lm35TempC :: float
  lm35TempF :: float
  potentiometerReading :: float
  potentiometerScaledToC :: float
  potentiometerScaledToF :: float
  gasDetected :: bool
  tempExceeded :: bool
  lastGasDetected :: bool
  lastTempExceeded :: bool
  lastPrintTime :: "32 word"
  buzzer :: float
  led :: bool
  analog :: "analog_in \<Rightarrow> float stream"
  uartUsb :: "char option stream"
  us_ticker :: "32 word stream"
  trace :: "event list"

text \<open>The state when \<^verbatim>\<open>main\<close> starts: the initialisers of lines 22 to 29 and 85 to 87.\<close>

definition initial_world ::
  "(analog_in \<Rightarrow> float stream) \<Rightarrow> char option stream \<Rightarrow> 32 word stream \<Rightarrow> world" where
  "initial_world sensors uart ticks =
     \<lparr> lm35Reading = Fin 0, lm35TempC = Fin 0, lm35TempF = Fin 0,
       potentiometerReading = Fin 0, potentiometerScaledToC = Fin 0,
       potentiometerScaledToF = Fin 0, gasDetected = False, tempExceeded = False,
       lastGasDetected = False, lastTempExceeded = False, lastPrintTime = 0,
       buzzer = Fin 0, led = False,
       analog = sensors, uartUsb = uart, us_ticker = ticks, trace = [] \<rparr>"

definition emit :: "event \<Rightarrow> world \<Rightarrow> world" where
  "emit e w = w\<lparr>trace := trace w @ [e]\<rparr>"

definition AnalogIn_read :: "analog_in \<Rightarrow> world \<Rightarrow> float \<times> world" where
  "AnalogIn_read sensor w =
     (let v = shd (analog w sensor)
      in (v, emit (AnalogRead sensor v) (w\<lparr>analog := (analog w)(sensor := stl (analog w sensor))\<rparr>)))"

definition sleep_for :: "nat \<Rightarrow> world \<Rightarrow> world" where
  "sleep_for ms w = emit (SleepFor ms) w"

definition us_ticker_read :: "world \<Rightarrow> 32 word \<times> world" where
  "us_ticker_read w = (shd (us_ticker w), w\<lparr>us_ticker := stl (us_ticker w)\<rparr>)"

definition buzzer_write :: "float \<Rightarrow> world \<Rightarrow> world" where
  "buzzer_write duty w = emit (BuzzerWrite duty) (w\<lparr>buzzer := duty\<rparr>)"

definition led_write :: "bool \<Rightarrow> world \<Rightarrow> world" where
  "led_write v w = emit (LedWrite v) (w\<lparr>led := v\<rparr>)"

definition CRLF :: string where
  "CRLF = [CHR 0x0D, CHR 0x0A]"

text \<open>The degree sign of the source's string literals: the two bytes of its UTF-8 encoding.\<close>

definition DEG :: string where
  "DEG = [CHR 0xC2, CHR 0xB0]"

section \<open>The program\<close>

definition pcSerialComStringWrite :: "cstring \<Rightarrow> world \<Rightarrow> world" where
  "pcSerialComStringWrite str w = emit (SerialWrite str) w"

definition pcSerialComCharRead :: "world \<Rightarrow> char \<times> world" where
  "pcSerialComCharRead w =
     (let receivedChar = CHR 0x00
      in case shd (uartUsb w) of
           None \<Rightarrow> (receivedChar, w\<lparr>uartUsb := stl (uartUsb w)\<rparr>)
         | Some c \<Rightarrow> (c, w\<lparr>uartUsb := stl (uartUsb w)\<rparr>))"

definition analogReadingScaledWithTheLM35Formula :: "float \<Rightarrow> float" where
  "analogReadingScaledWithTheLM35Formula analogReading = fmul analogReading (Fin 330)"

definition celsiusToFahrenheit :: "float \<Rightarrow> float" where
  "celsiusToFahrenheit tempInCelsiusDegrees =
     fadd (fdiv (fmul tempInCelsiusDegrees (Fin 9)) (Fin 5)) (Fin 32)"

definition potentiometerScaledToCelsius :: "float \<Rightarrow> float" where
  "potentiometerScaledToCelsius analogValue = fmul analogValue (Fin 330)"

definition potentiometerScaledToFahrenheit :: "float \<Rightarrow> float" where
  "potentiometerScaledToFahrenheit analogValue =
     fadd (fdiv (fmul (potentiometerScaledToCelsius analogValue) (Fin 9)) (Fin 5)) (Fin 32)"

text \<open>The loop of \<^verbatim>\<open>readStableAnalog\<close>, from the value \<open>i\<close> of its counter on.\<close>

function readStableAnalog_for :: "int \<Rightarrow> analog_in \<Rightarrow> float \<Rightarrow> world \<Rightarrow> float \<times> world" where
  "readStableAnalog_for i sensor reading w =
     (if i < 10 then
        (let (v, w1) = AnalogIn_read sensor w;
             reading1 = fadd reading v;
             w2 = sleep_for 10 w1
         in readStableAnalog_for (i + 1) sensor reading1 w2)
      else (reading, w))"
  by pat_completeness auto
termination
  by (relation "measure (\<lambda>(i, sensor, reading, w). nat (10 - i))") auto

declare readStableAnalog_for.simps [simp del]

definition readStableAnalog :: "analog_in \<Rightarrow> world \<Rightarrow> float \<times> world" where
  "readStableAnalog sensor w =
     (let (reading, w1) = readStableAnalog_for 0 sensor (Fin 0) w
      in (fdiv reading (Fin 10), w1))"

definition availableCommands :: "world \<Rightarrow> world" where
  "availableCommands w0 =
     (let w1 = pcSerialComStringWrite
                 (Literal (CRLF @ ''Press the following keys to continuously '')) w0;
          w2 = pcSerialComStringWrite
                 (Literal (''print the readings until '' @ [CHR 0x27] @ ''q'' @ [CHR 0x27]
                           @ '' is pressed:'' @ CRLF)) w1;
          w3 = pcSerialComStringWrite
                 (Literal ('' - '' @ [CHR 0x27] @ ''a'' @ [CHR 0x27]
                           @ '' the reading at the analog pin A0 (potentiometer)'' @ CRLF)) w2;
          w4 = pcSerialComStringWrite
                 (Literal ('' - '' @ [CHR 0x27] @ ''b'' @ [CHR 0x27]
                           @ '' the reading at the analog pin A1 (LM35)'' @ CRLF)) w3;
          w5 = pcSerialComStringWrite
                 (Literal ('' - '' @ [CHR 0x27] @ ''c'' @ [CHR 0x27]
                           @ '' the temperature in Celsius from LM35'' @ CRLF)) w4;
          w6 = pcSerialComStringWrite
                 (Literal ('' - '' @ [CHR 0x27] @ ''d'' @ [CHR 0x27]
                           @ '' the temperature in Fahrenheit from LM35'' @ CRLF)) w5;
          w7 = pcSerialComStringWrite
                 (Literal ('' - '' @ [CHR 0x27] @ ''e'' @ [CHR 0x27]
                           @ '' both LM35 in Celsius and potentiometer value in Celsius''
                           @ CRLF)) w6;
          w8 = pcSerialComStringWrite
                 (Literal ('' - '' @ [CHR 0x27] @ ''f'' @ [CHR 0x27]
                           @ '' both LM35 in Fahrenheit and potentiometer value in Fahrenheit''
                           @ CRLF)) w7
      in pcSerialComStringWrite
           (Literal (CRLF @ ''WARNING: Press '' @ [CHR 0x27] @ ''q'' @ [CHR 0x27] @ '' or ''
                     @ [CHR 0x27] @ ''Q'' @ [CHR 0x27] @ '' to stop.'' @ CRLF)) w8)"

subsection \<open>\<^verbatim>\<open>checkSensors\<close>\<close>

text \<open>
  \<^verbatim>\<open>checkSensors\<close> is a sequence of five blocks, each under a comment of its own in the
  source; each block is a function here, named after its comment.
\<close>

text \<open>Lines 90 to 95, "Read all sensors with stable readings"; the local \<^verbatim>\<open>gasReading\<close> is returned.\<close>

definition read_all_sensors :: "world \<Rightarrow> float \<times> world" where
  "read_all_sensors w0 =
     (let (gasReading, w1) = readStableAnalog GasSensor w0;
          (r, w2) = readStableAnalog Lm35 w1;
          w3 = w2\<lparr>lm35Reading := r\<rparr>;
          w4 = w3\<lparr>lm35TempC := analogReadingScaledWithTheLM35Formula (lm35Reading w3)\<rparr>;
          w5 = w4\<lparr>lm35TempF := celsiusToFahrenheit (lm35TempC w4)\<rparr>;
          (p, w6) = readStableAnalog Potentiometer w5
      in (gasReading, w6\<lparr>potentiometerReading := p\<rparr>))"

text \<open>Lines 97 to 110, "Check gas sensor".\<close>

definition check_gas_sensor :: "float \<Rightarrow> world \<Rightarrow> world" where
  "check_gas_sensor gasReading w =
     (if fgt gasReading (Fin 0.5) then
        (let w1 = w\<lparr>gasDetected := True\<rparr>
         in if \<not> lastGasDetected w1
            then (pcSerialComStringWrite (Literal (''Gas detected!'' @ CRLF)) w1)
                   \<lparr>lastGasDetected := True\<rparr>
            else w1)
      else
        (let w1 = w\<lparr>gasDetected := False\<rparr>
         in if lastGasDetected w1
            then (pcSerialComStringWrite (Literal (''Gas no longer detected.'' @ CRLF)) w1)
                   \<lparr>lastGasDetected := False\<rparr>
            else w1))"

text \<open>Lines 112 to 125, "Check temperature".\<close>

definition check_temperature :: "world \<Rightarrow> world" where
  "check_temperature w =
     (if fgt (lm35TempC w) (Fin 24) then
        (let w1 = w\<lparr>tempExceeded := True\<rparr>
         in if \<not> lastTempExceeded w1
            then (pcSerialComStringWrite
                    (Literal (''ALERT: LM35 temperature exceeds 24'' @ DEG @ ''C!'' @ CRLF)) w1)
                   \<lparr>lastTempExceeded := True\<rparr>
            else w1)
      else
        (let w1 = w\<lparr>tempExceeded := False\<rparr>
         in if lastTempExceeded w1
            then (pcSerialComStringWrite
                    (Literal (''LM35 temperature below 24'' @ DEG @ ''C.'' @ CRLF)) w1)
                   \<lparr>lastTempExceeded := False\<rparr>
            else w1))"

text \<open>
  Lines 127 to 134, "Print all sensor readings every 1 second". The time is an
  \<^verbatim>\<open>uint32_t\<close>: the division is the unsigned one, the subtraction wraps around.
\<close>

definition print_all_sensor_readings :: "float \<Rightarrow> world \<Rightarrow> world" where
  "print_all_sensor_readings gasReading w =
     (let (t, w1) = us_ticker_read w;
          currentTime = t div 1000
      in if 1000 \<le> currentTime - lastPrintTime w1 then
           (let str = Sprintf (''Gas: %.2f, LM35: %.2f C, Potentiometer: %.2f'' @ CRLF)
                        [gasReading, lm35TempC w1, potentiometerReading w1];
                w2 = pcSerialComStringWrite str w1
            in w2\<lparr>lastPrintTime := currentTime\<rparr>)
         else w1)"

text \<open>Lines 136 to 150, "Control buzzer and LED, and print alarm source".\<close>

definition control_buzzer_and_led :: "world \<Rightarrow> world" where
  "control_buzzer_and_led w =
     (if gasDetected w \<or> tempExceeded w then
        (let w1 = buzzer_write (Fin 0.5) w;
             w2 = led_write (\<not> led w1) w1;
             w3 = (if gasDetected w2
                   then pcSerialComStringWrite (Literal (''Gas Alarm'' @ CRLF)) w2 else w2)
         in if tempExceeded w3
            then pcSerialComStringWrite (Literal (''Temperature Alarm'' @ CRLF)) w3 else w3)
      else
        (let w1 = buzzer_write (Fin 0) w
         in led_write False w1))"

definition checkSensors :: "world \<Rightarrow> world" where
  "checkSensors w0 =
     (let (gasReading, w1) = read_all_sensors w0;
          w2 = check_gas_sensor gasReading w1;
          w3 = check_temperature w2;
          w4 = print_all_sensor_readings gasReading w3
      in control_buzzer_and_led w4)"

subsection \<open>\<^verbatim>\<open>uartTask\<close>\<close>

text \<open>The bodies of the six \<^verbatim>\<open>while\<close> loops, up to the write to the serial port.\<close>

definition stream_a :: "world \<Rightarrow> world" where
  "stream_a w0 =
     (let (v, w1) = AnalogIn_read Potentiometer w0;
          w2 = w1\<lparr>potentiometerReading := v\<rparr>;
          str = Sprintf (''Potentiometer reading: %.2f'' @ CRLF) [potentiometerReading w2]
      in pcSerialComStringWrite str w2)"

definition stream_b :: "world \<Rightarrow> world" where
  "stream_b w0 =
     (let (v, w1) = AnalogIn_read Lm35 w0;
          w2 = w1\<lparr>lm35Reading := v\<rparr>;
          str = Sprintf (''LM35 reading: %.2f'' @ CRLF) [lm35Reading w2]
      in pcSerialComStringWrite str w2)"

definition stream_c :: "world \<Rightarrow> world" where
  "stream_c w0 =
     (let (v, w1) = AnalogIn_read Lm35 w0;
          w2 = w1\<lparr>lm35Reading := v\<rparr>;
          w3 = w2\<lparr>lm35TempC := analogReadingScaledWithTheLM35Formula (lm35Reading w2)\<rparr>;
          str = Sprintf (''LM35: %.2f '' @ DEG @ ''C'' @ CRLF) [lm35TempC w3]
      in pcSerialComStringWrite str w3)"

definition stream_d :: "world \<Rightarrow> world" where
  "stream_d w0 =
     (let (v, w1) = AnalogIn_read Lm35 w0;
          w2 = w1\<lparr>lm35Reading := v\<rparr>;
          w3 = w2\<lparr>lm35TempC := analogReadingScaledWithTheLM35Formula (lm35Reading w2)\<rparr>;
          w4 = w3\<lparr>lm35TempF := celsiusToFahrenheit (lm35TempC w3)\<rparr>;
          str = Sprintf (''LM35: %.2f '' @ DEG @ ''F'' @ CRLF) [lm35TempF w4]
      in pcSerialComStringWrite str w4)"

definition stream_e :: "world \<Rightarrow> world" where
  "stream_e w0 =
     (let (p, w1) = AnalogIn_read Potentiometer w0;
          w2 = w1\<lparr>potentiometerReading := p\<rparr>;
          w3 = w2\<lparr>potentiometerScaledToC := potentiometerScaledToCelsius (potentiometerReading w2)\<rparr>;
          (v, w4) = AnalogIn_read Lm35 w3;
          w5 = w4\<lparr>lm35Reading := v\<rparr>;
          w6 = w5\<lparr>lm35TempC := analogReadingScaledWithTheLM35Formula (lm35Reading w5)\<rparr>;
          str = Sprintf (''LM35: %.2f '' @ DEG @ ''C, Potentiometer scaled to '' @ DEG
                         @ ''C: %.2f'' @ CRLF)
                  [lm35TempC w6, potentiometerScaledToC w6]
      in pcSerialComStringWrite str w6)"

definition stream_f :: "world \<Rightarrow> world" where
  "stream_f w0 =
     (let (p, w1) = AnalogIn_read Potentiometer w0;
          w2 = w1\<lparr>potentiometerReading := p\<rparr>;
          w3 = w2\<lparr>potentiometerScaledToF := potentiometerScaledToFahrenheit (potentiometerReading w2)\<rparr>;
          (v, w4) = AnalogIn_read Lm35 w3;
          w5 = w4\<lparr>lm35Reading := v\<rparr>;
          w6 = w5\<lparr>lm35TempC := analogReadingScaledWithTheLM35Formula (lm35Reading w5)\<rparr>;
          w7 = w6\<lparr>lm35TempF := celsiusToFahrenheit (lm35TempC w6)\<rparr>;
          str = Sprintf (''LM35: %.2f '' @ DEG @ ''F, Potentiometer scaled to '' @ DEG
                         @ ''F: %.2f'' @ CRLF)
                  [lm35TempF w7, potentiometerScaledToF w7]
      in pcSerialComStringWrite str w7)"

text \<open>
  The loop \<^verbatim>\<open>while (!(receivedChar == 'q' || receivedChar == 'Q')) { body; sleep_for(200ms);
  receivedChar = pcSerialComCharRead(); }\<close>, written six times in the source with six
  bodies. It need not end: \<open>None\<close> is the run that never leaves the loop.
\<close>

partial_function (option) while_not_q :: "(world \<Rightarrow> world) \<Rightarrow> char \<Rightarrow> world \<Rightarrow> world option" where
  "while_not_q body receivedChar w =
     (if \<not> (receivedChar = CHR ''q'' \<or> receivedChar = CHR ''Q'') then
        (let w1 = body w;
             w2 = sleep_for 200 w1;
             (c, w3) = pcSerialComCharRead w2
         in while_not_q body c w3)
      else Some w)"

definition uartTask :: "world \<Rightarrow> world option" where
  "uartTask w0 =
     (let (receivedChar, w) = pcSerialComCharRead w0
      in if receivedChar \<noteq> CHR 0x00 then
           (if receivedChar = CHR ''a'' \<or> receivedChar = CHR ''A''
              then while_not_q stream_a receivedChar w
            else if receivedChar = CHR ''b'' \<or> receivedChar = CHR ''B''
              then while_not_q stream_b receivedChar w
            else if receivedChar = CHR ''c'' \<or> receivedChar = CHR ''C''
              then while_not_q stream_c receivedChar w
            else if receivedChar = CHR ''d'' \<or> receivedChar = CHR ''D''
              then while_not_q stream_d receivedChar w
            else if receivedChar = CHR ''e'' \<or> receivedChar = CHR ''E''
              then while_not_q stream_e receivedChar w
            else if receivedChar = CHR ''f'' \<or> receivedChar = CHR ''F''
              then while_not_q stream_f receivedChar w
            else Some w)
         else Some w)"

subsection \<open>\<^verbatim>\<open>main\<close>\<close>

text \<open>Lines 44 to 47, before the loop.\<close>

definition main_setup :: "world \<Rightarrow> world" where
  "main_setup w0 =
     (let w1 = emit (BuzzerPeriodMs 2) w0;
          w2 = buzzer_write (Fin 0) w1
      in availableCommands w2)"

text \<open>One turn of \<^verbatim>\<open>while (true)\<close>, lines 49 to 51.\<close>

definition main_iteration :: "world \<Rightarrow> world option" where
  "main_iteration w0 =
     (let w1 = checkSensors w0
      in case uartTask w1 of
           None \<Rightarrow> None
         | Some w2 \<Rightarrow> Some (sleep_for 200 w2))"

text \<open>The first \<open>n\<close> turns of the loop.\<close>

fun main_loop :: "nat \<Rightarrow> world \<Rightarrow> world option" where
  "main_loop 0 w = Some w"
| "main_loop (Suc n) w =
     (case main_iteration w of None \<Rightarrow> None | Some w1 \<Rightarrow> main_loop n w1)"

section \<open>Notions used in the statements\<close>

text \<open>
  The value \<^verbatim>\<open>readStableAnalog\<close> computes from the next ten reads of an input: their sum,
  accumulated from \<open>0\<close> in the order of the reads, divided by ten, all in single
  precision.
\<close>

definition mean10 :: "float stream \<Rightarrow> float" where
  "mean10 s = fdiv (foldl fadd (Fin 0) (stake 10 s)) (Fin 10)"

text \<open>The events of \<^verbatim>\<open>readStableAnalog\<close>: each read is followed by a pause of 10 ms.\<close>

definition read_events :: "analog_in \<Rightarrow> float list \<Rightarrow> event list" where
  "read_events sensor vs = concat (map (\<lambda>v. [AnalogRead sensor v, SleepFor 10]) vs)"

text \<open>A normalised reading, between 0 and 1, and the real number a finite value stands for.\<close>

definition in_unit :: "float \<Rightarrow> bool" where
  "in_unit v = (case v of Fin x \<Rightarrow> 0 \<le> x \<and> x \<le> 1 | _ \<Rightarrow> False)"

definition the_real :: "float \<Rightarrow> real" where
  "the_real v = (case v of Fin x \<Rightarrow> x | _ \<Rightarrow> 0)"

text \<open>Running operations one after the other: the events each of them adds.\<close>

fun run_steps :: "(world \<Rightarrow> world) list \<Rightarrow> world \<Rightarrow> event list list" where
  "run_steps [] w = []"
| "run_steps (f # fs) w = drop (length (trace w)) (trace (f w)) # run_steps fs (f w)"

text \<open>
  The byte \<^verbatim>\<open>pcSerialComCharRead\<close> returns for the outcome of a poll, the bytes that end a
  streaming loop, and the loop body the \<^verbatim>\<open>switch\<close> of \<^verbatim>\<open>uartTask\<close> selects for a byte.
\<close>

definition polled :: "char option \<Rightarrow> char" where
  "polled x = (case x of None \<Rightarrow> CHR 0x00 | Some c \<Rightarrow> c)"

definition is_quit :: "char \<Rightarrow> bool" where
  "is_quit c = (c = CHR ''q'' \<or> c = CHR ''Q'')"

definition command_body :: "char \<Rightarrow> (world \<Rightarrow> world) option" where
  "command_body c =
     (if c = CHR ''a'' \<or> c = CHR ''A'' then Some stream_a
      else if c = CHR ''b'' \<or> c = CHR ''B'' then Some stream_b
      else if c = CHR ''c'' \<or> c = CHR ''C'' then Some stream_c
      else if c = CHR ''d'' \<or> c = CHR ''D'' then Some stream_d
      else if c = CHR ''e'' \<or> c = CHR ''E'' then Some stream_e
      else if c = CHR ''f'' \<or> c = CHR ''F'' then Some stream_f
      else None)"

text \<open>
  One turn of a streaming loop: the body, the pause of 200 ms and the poll, whose outcome
  is dropped from what the serial port still holds.
\<close>

definition turn :: "(world \<Rightarrow> world) \<Rightarrow> world \<Rightarrow> world" where
  "turn body w = (sleep_for 200 (body w))\<lparr>uartUsb := stl (uartUsb w)\<rparr>"

text \<open>A loop body that neither reads nor changes the serial input.\<close>

definition ignores_uart :: "(world \<Rightarrow> world) \<Rightarrow> bool" where
  "ignores_uart body = (\<forall>w u. body (w\<lparr>uartUsb := u\<rparr>) = (body w)\<lparr>uartUsb := u\<rparr>)"

text \<open>Ten reads of the same value.\<close>

definition ten_times :: "'a \<Rightarrow> 'a list" where
  "ten_times x = [x, x, x, x, x, x, x, x, x, x]"

text \<open>The events of one turn of the loop of the command \<^verbatim>\<open>a\<close>, for the value \<open>v\<close> it reads.\<close>

definition potentiometer_turn :: "float \<Rightarrow> event list" where
  "potentiometer_turn v =
     [AnalogRead Potentiometer v,
      SerialWrite (Sprintf (''Potentiometer reading: %.2f'' @ CRLF) [v]),
      SleepFor 200]"

section \<open>Evaluating the arithmetic\<close>

lemma expo_hi_numeral:
  "expo_hi (numeral k) x = (if x < 2 then 0 else expo_hi (pred_numeral k) (x / 2) + 1)"
  by (simp add: numeral_eq_Suc)

lemma expo_lo_numeral:
  "expo_lo (numeral k) x = (if 1 \<le> x then 0 else expo_lo (pred_numeral k) (2 * x) - 1)"
  by (simp add: numeral_eq_Suc)

lemmas float_eval = round32_def ulp32_def exponent32_def rne_def Let_def
  expo_hi_numeral expo_lo_numeral

lemma stake_numeral: "stake (numeral k) s = shd s # stake (pred_numeral k) (stl s)"
  by (simp add: numeral_eq_Suc)

lemma round32_3_10: "round32 (3 / 10) = Fin (5033165 / 16777216)"
  by (simp add: float_eval)

lemma round32_3_5: "round32 (3 / 5) = Fin (5033165 / 8388608)"
  by (simp add: float_eval)

lemma round32_2_5: "round32 (2 / 5) = Fin (13421773 / 33554432)"
  by (simp add: float_eval)

section \<open>The error of one rounding, and of the mean of ten readings\<close>

lemma the_real_Fin: "the_real (Fin x) = x"
  by (simp add: the_real_def)

lemma rne_error: "\<bar>of_int (rne q) - q\<bar> \<le> 1 / 2"
  unfolding rne_def Let_def by (auto; linarith)

lemma expo_hi_le: "x < 2 ^ Suc k \<Longrightarrow> expo_hi n x \<le> int k"
proof (induction n arbitrary: x k)
  case 0
  then show ?case by simp
next
  case (Suc n)
  show ?case
  proof (cases "x < 2")
    case True
    then show ?thesis by simp
  next
    case False
    with Suc.prems obtain j where j: "k = Suc j"
      by (cases k) auto
    with Suc.prems have "x / 2 < 2 ^ Suc j" by simp
    from Suc.IH [OF this] False j show ?thesis by simp
  qed
qed

lemma expo_lo_le: "expo_lo n x \<le> 0"
proof (induction n arbitrary: x)
  case 0
  show ?case by simp
next
  case (Suc n)
  from Suc [of "2 * x"] show ?case by simp
qed

lemma exponent32_le: "\<bar>x\<bar> < 2 ^ Suc k \<Longrightarrow> exponent32 x \<le> int k"
  using expo_hi_le [of "\<bar>x\<bar>" k 127] expo_lo_le [of 126 "\<bar>x\<bar>"]
  by (auto simp: exponent32_def intro: order_trans)

lemma ulp32_pos: "0 < ulp32 x"
  by (simp add: ulp32_def)

lemma ulp32_le:
  assumes "\<bar>x\<bar> < 2 ^ Suc k"
  shows "ulp32 x \<le> 2 ^ k / 2 ^ 23"
proof -
  have "ulp32 x \<le> 2 powi (int k - 23)"
    unfolding ulp32_def using exponent32_le [OF assms]
    by (intro power_int_increasing) auto
  also have "\<dots> = 2 ^ k / 2 ^ 23"
    by (simp add: power_int_diff)
  finally show ?thesis .
qed

lemma round32_near:
  assumes "\<bar>x\<bar> < 2 ^ Suc k" and "k \<le> 100"
  shows "\<exists>y. round32 x = Fin y \<and> \<bar>y - x\<bar> \<le> 2 ^ k / 2 ^ 24"
proof -
  let ?u = "ulp32 x"
  let ?r = "real_of_int (rne (x / ?u))"
  have u: "0 < ?u" by (rule ulp32_pos)
  have "?r * ?u - x = (?r - x / ?u) * ?u"
    using u by (simp add: left_diff_distrib)
  then have "\<bar>?r * ?u - x\<bar> = \<bar>?r - x / ?u\<bar> * ?u"
    using u by (simp add: abs_mult)
  also have "\<dots> \<le> 1 / 2 * ?u"
    using rne_error [of "x / ?u"] u by (intro mult_right_mono) auto
  also have "\<dots> \<le> 1 / 2 * (2 ^ k / 2 ^ 23)"
    using ulp32_le [OF assms(1)] by (intro mult_left_mono) auto
  also have "\<dots> = 2 ^ k / 2 ^ 24" by simp
  finally have err: "\<bar>?r * ?u - x\<bar> \<le> 2 ^ k / 2 ^ 24" .
  have "(2::real) ^ k \<le> 2 ^ 100"
    using assms(2) by (intro power_increasing) auto
  then have p: "(2::real) ^ k / 2 ^ 24 \<le> 2 ^ 100"
    by (simp add: field_simps)
  have "(2::real) ^ Suc k \<le> 2 ^ 101"
    using assms(2) by (intro power_increasing) auto
  with assms(1) have "\<bar>x\<bar> < 2 ^ 101" by linarith
  with err p have "\<bar>?r * ?u\<bar> < 2 ^ 101 + 2 ^ 100" by linarith
  also have "\<dots> < (2::real) ^ 128" by simp
  finally have "\<not> 2 ^ 128 \<le> \<bar>?r * ?u\<bar>" by simp
  then have "round32 x = Fin (?r * ?u)"
    by (simp add: round32_def Let_def)
  with err show ?thesis by blast
qed

lemma round32_near_16: "\<bar>x\<bar> < 16 \<Longrightarrow> \<exists>y. round32 x = Fin y \<and> \<bar>y - x\<bar> \<le> 1 / 2 ^ 21"
  using round32_near [of x 3] by simp

lemma round32_near_2: "\<bar>x\<bar> < 2 \<Longrightarrow> \<exists>y. round32 x = Fin y \<and> \<bar>y - x\<bar> \<le> 1 / 2 ^ 24"
  using round32_near [of x 0] by simp

lemma foldl_fadd_near:
  "list_all in_unit vs \<Longrightarrow> \<bar>a - A\<bar> \<le> real j * (1 / 2 ^ 21) \<Longrightarrow> 0 \<le> A \<Longrightarrow> A \<le> real j
     \<Longrightarrow> j + length vs \<le> 10
     \<Longrightarrow> \<exists>b. foldl fadd (Fin a) vs = Fin b
           \<and> \<bar>b - (A + sum_list (map the_real vs))\<bar> \<le> real (j + length vs) * (1 / 2 ^ 21)
           \<and> 0 \<le> A + sum_list (map the_real vs)
           \<and> A + sum_list (map the_real vs) \<le> real (j + length vs)"
proof (induction vs arbitrary: a A j)
  case Nil
  then show ?case by simp
next
  case (Cons v vs)
  define e :: real where "e = 1 / 2 ^ 21"
  have e: "0 \<le> e" "e \<le> 1 / 9" by (simp_all add: e_def)
  from Cons.prems(1) obtain x where v: "v = Fin x" and x: "0 \<le> x" "x \<le> 1"
    by (cases v) (auto simp: in_unit_def)
  have j: "real j \<le> 9" using Cons.prems(5) by simp
  have "real j * e \<le> 9 * (1 / 9)"
    using j e by (intro mult_mono) auto
  then have je: "real j * e \<le> 1" by simp
  have aA: "\<bar>a - A\<bar> \<le> real j * e" using Cons.prems(2) by (simp add: e_def)
  with Cons.prems(3,4) x j je have "\<bar>a + x\<bar> < 16" by linarith
  from round32_near_16 [OF this] obtain b1 where
    b1: "round32 (a + x) = Fin b1" "\<bar>b1 - (a + x)\<bar> \<le> e" by (auto simp: e_def)
  have "\<bar>b1 - (A + x)\<bar> \<le> real j * e + e"
    using b1(2) aA by linarith
  then have e1: "\<bar>b1 - (A + x)\<bar> \<le> real (Suc j) * (1 / 2 ^ 21)"
    by (simp add: e_def algebra_simps)
  have "\<exists>b. foldl fadd (Fin b1) vs = Fin b
           \<and> \<bar>b - ((A + x) + sum_list (map the_real vs))\<bar> \<le> real (Suc j + length vs) * (1 / 2 ^ 21)
           \<and> 0 \<le> (A + x) + sum_list (map the_real vs)
           \<and> (A + x) + sum_list (map the_real vs) \<le> real (Suc j + length vs)"
    using Cons.prems x by (intro Cons.IH e1) auto
  then show ?case
    by (simp add: v b1(1) the_real_Fin add.assoc)
qed

lemma mean10_near:
  assumes "list_all in_unit (stake 10 s)"
  shows "\<exists>m. mean10 s = Fin m
           \<and> \<bar>m - sum_list (map the_real (stake 10 s)) / 10\<bar> \<le> 1 / 2 ^ 20"
proof -
  let ?S = "sum_list (map the_real (stake 10 s))"
  from foldl_fadd_near [OF assms, of 0 0 0] obtain b where
    b: "foldl fadd (Fin 0) (stake 10 s) = Fin b" "\<bar>b - ?S\<bar> \<le> 10 * (1 / 2 ^ 21)"
      "0 \<le> ?S" "?S \<le> 10"
    by auto
  have "(10::real) * (1 / 2 ^ 21) \<le> 1" by simp
  with b(2,3,4) have "\<bar>b\<bar> < 20" by linarith
  then have "\<bar>b / 10\<bar> < 2" by simp
  from round32_near_2 [OF this] obtain m where
    m: "round32 (b / 10) = Fin m" "\<bar>m - b / 10\<bar> \<le> 1 / 2 ^ 24" by blast
  have "\<bar>b / 10 - ?S / 10\<bar> = \<bar>b - ?S\<bar> / 10"
    by (simp add: diff_divide_distrib [symmetric] del: diff_divide_distrib)
  also have "\<dots> \<le> 1 / 2 ^ 21" using b(2) by simp
  finally have "\<bar>m - ?S / 10\<bar> \<le> 1 / 2 ^ 24 + 1 / 2 ^ 21"
    using m(2) by linarith
  also have "\<dots> \<le> 1 / 2 ^ 20" by simp
  finally show ?thesis
    by (auto simp: mean10_def b(1) m(1))
qed

section \<open>The unit converters\<close>

lemma celsiusToFahrenheit_0: "celsiusToFahrenheit (Fin 0) = Fin 32"
  by (simp add: celsiusToFahrenheit_def float_eval)

lemma celsiusToFahrenheit_100: "celsiusToFahrenheit (Fin 100) = Fin 212"
  by (simp add: celsiusToFahrenheit_def float_eval)

text \<open>
  C4. For every value \<open>v\<close>, the LM35 formula (the spec's \<^verbatim>\<open>temperatureFromGasSensorFormula\<close>,
  \<^verbatim>\<open>analogReadingScaledWithTheLM35Formula\<close> in the source) returns the single-precision
  product of \<open>v\<close> and 330, which for a finite \<open>v\<close> is the real product rounded to the format;
  \<^verbatim>\<open>celsiusToFahrenheit\<close> maps 0 to 32 and 100 to 212; and \<^verbatim>\<open>potentiometerScaledToFahrenheit\<close>
  is the composition of \<^verbatim>\<open>celsiusToFahrenheit\<close> with the LM35 formula, although the source
  computes it through \<^verbatim>\<open>potentiometerScaledToCelsius\<close>.
\<close>

theorem unit_converters:
  "analogReadingScaledWithTheLM35Formula v = fmul v (Fin 330)
   \<and> analogReadingScaledWithTheLM35Formula (Fin x) = round32 (x * 330)
   \<and> celsiusToFahrenheit (Fin 0) = Fin 32
   \<and> celsiusToFahrenheit (Fin 100) = Fin 212
   \<and> potentiometerScaledToFahrenheit v
       = celsiusToFahrenheit (analogReadingScaledWithTheLM35Formula v)"
  by (simp add: analogReadingScaledWithTheLM35Formula_def potentiometerScaledToFahrenheit_def
      potentiometerScaledToCelsius_def celsiusToFahrenheit_0 celsiusToFahrenheit_100)
    (simp add: celsiusToFahrenheit_def)

section \<open>The blocks of \<^verbatim>\<open>checkSensors\<close>, each as one update of the state\<close>

lemma check_gas_sensor_eq:
  "check_gas_sensor g w =
     w\<lparr>gasDetected := fgt g (Fin 0.5), lastGasDetected := fgt g (Fin 0.5),
       trace := trace w @
         (if fgt g (Fin 0.5) \<and> \<not> lastGasDetected w
            then [SerialWrite (Literal (''Gas detected!'' @ CRLF))]
          else if \<not> fgt g (Fin 0.5) \<and> lastGasDetected w
            then [SerialWrite (Literal (''Gas no longer detected.'' @ CRLF))]
          else [])\<rparr>"
  by (simp add: check_gas_sensor_def pcSerialComStringWrite_def emit_def Let_def)

lemma check_temperature_eq:
  "check_temperature w =
     w\<lparr>tempExceeded := fgt (lm35TempC w) (Fin 24),
       lastTempExceeded := fgt (lm35TempC w) (Fin 24),
       trace := trace w @
         (if fgt (lm35TempC w) (Fin 24) \<and> \<not> lastTempExceeded w
            then [SerialWrite
                    (Literal (''ALERT: LM35 temperature exceeds 24'' @ DEG @ ''C!'' @ CRLF))]
          else if \<not> fgt (lm35TempC w) (Fin 24) \<and> lastTempExceeded w
            then [SerialWrite (Literal (''LM35 temperature below 24'' @ DEG @ ''C.'' @ CRLF))]
          else [])\<rparr>"
  by (simp add: check_temperature_def pcSerialComStringWrite_def emit_def Let_def)

lemma print_all_sensor_readings_eq:
  "print_all_sensor_readings g w =
     w\<lparr>lastPrintTime :=
         (if 1000 \<le> shd (us_ticker w) div 1000 - lastPrintTime w
          then shd (us_ticker w) div 1000 else lastPrintTime w),
       us_ticker := stl (us_ticker w),
       trace := trace w @
         (if 1000 \<le> shd (us_ticker w) div 1000 - lastPrintTime w
          then [SerialWrite (Sprintf (''Gas: %.2f, LM35: %.2f C, Potentiometer: %.2f'' @ CRLF)
                  [g, lm35TempC w, potentiometerReading w])]
          else [])\<rparr>"
  by (simp add: print_all_sensor_readings_def us_ticker_read_def pcSerialComStringWrite_def
      emit_def Let_def)

lemma control_buzzer_and_led_eq:
  "control_buzzer_and_led w =
     w\<lparr>buzzer := (if gasDetected w \<or> tempExceeded w then Fin 0.5 else Fin 0),
       led := (if gasDetected w \<or> tempExceeded w then \<not> led w else False),
       trace := trace w @
         (if gasDetected w \<or> tempExceeded w
          then [BuzzerWrite (Fin 0.5), LedWrite (\<not> led w)]
               @ (if gasDetected w then [SerialWrite (Literal (''Gas Alarm'' @ CRLF))] else [])
               @ (if tempExceeded w
                  then [SerialWrite (Literal (''Temperature Alarm'' @ CRLF))] else [])
          else [BuzzerWrite (Fin 0), LedWrite False])\<rparr>"
  by (simp add: control_buzzer_and_led_def buzzer_write_def led_write_def
      pcSerialComStringWrite_def emit_def Let_def)

lemma readStableAnalog_for_eq:
  "nat (10 - i) = k \<Longrightarrow> readStableAnalog_for i sensor reading w =
     (foldl fadd reading (stake k (analog w sensor)),
      w\<lparr>analog := (analog w)(sensor := sdrop k (analog w sensor)),
        trace := trace w @ read_events sensor (stake k (analog w sensor))\<rparr>)"
proof (induction k arbitrary: i reading w)
  case 0
  then have "\<not> i < 10" by simp
  then show ?case
    by (subst readStableAnalog_for.simps) (simp add: read_events_def)
next
  case (Suc k)
  then have lt: "i < 10" and k: "nat (10 - (i + 1)) = k" by simp_all
  let ?s = "analog w sensor"
  let ?w1 = "w\<lparr>analog := (analog w)(sensor := stl ?s),
                trace := trace w @ [AnalogRead sensor (shd ?s), SleepFor 10]\<rparr>"
  have step: "readStableAnalog_for i sensor reading w
      = readStableAnalog_for (i + 1) sensor (fadd reading (shd ?s)) ?w1"
    by (subst readStableAnalog_for.simps)
      (simp add: lt AnalogIn_read_def sleep_for_def emit_def Let_def)
  have a1: "analog ?w1 = (analog w)(sensor := stl ?s)"
    and t1: "trace ?w1 = trace w @ [AnalogRead sensor (shd ?s), SleepFor 10]"
    by simp_all
  show ?case
    unfolding step Suc.IH [OF k] a1 t1
    by (simp add: read_events_def fun_upd_def cong: if_cong)
qed

lemma readStableAnalog_eq:
  "readStableAnalog sensor w =
     (mean10 (analog w sensor),
      w\<lparr>analog := (analog w)(sensor := sdrop 10 (analog w sensor)),
        trace := trace w @ read_events sensor (stake 10 (analog w sensor))\<rparr>)"
  by (simp add: readStableAnalog_def readStableAnalog_for_eq [where k = 10] mean10_def)

lemma read_all_sensors_eq:
  "read_all_sensors w =
     (mean10 (analog w GasSensor),
      w\<lparr>lm35Reading := mean10 (analog w Lm35),
        lm35TempC := analogReadingScaledWithTheLM35Formula (mean10 (analog w Lm35)),
        lm35TempF := celsiusToFahrenheit
                       (analogReadingScaledWithTheLM35Formula (mean10 (analog w Lm35))),
        potentiometerReading := mean10 (analog w Potentiometer),
        analog := (analog w)(GasSensor := sdrop 10 (analog w GasSensor),
                             Lm35 := sdrop 10 (analog w Lm35),
                             Potentiometer := sdrop 10 (analog w Potentiometer)),
        trace := trace w @ read_events GasSensor (stake 10 (analog w GasSensor))
                   @ read_events Lm35 (stake 10 (analog w Lm35))
                   @ read_events Potentiometer (stake 10 (analog w Potentiometer))\<rparr>)"
  by (simp add: read_all_sensors_def readStableAnalog_eq Let_def fun_upd_def cong: if_cong)

lemma checkSensors_eq:
  "checkSensors w =
     control_buzzer_and_led
       (print_all_sensor_readings (mean10 (analog w GasSensor))
         (check_temperature
           (check_gas_sensor (mean10 (analog w GasSensor)) (snd (read_all_sensors w)))))"
  by (simp add: checkSensors_def read_all_sensors_eq Let_def)

lemmas checkSensors_blocks = checkSensors_eq control_buzzer_and_led_eq
  print_all_sensor_readings_eq check_temperature_eq check_gas_sensor_eq read_all_sensors_eq

section \<open>The analog sampler\<close>

lemma mean10_canned:
  "mean10 (map round32 [0.1, 0.2, 0.3, 0.4, 0.5, 0.6, 0.7, 0.8, 0.9, 1.0] @- s) = round32 0.55"
  by (simp add: mean10_def stake_numeral float_eval)

text \<open>
  C7. \<^verbatim>\<open>readStableAnalog\<close> takes exactly ten consecutive reads of the input it is given,
  each followed by a pause of 10 ms, and touches nothing else; it returns their mean as
  single-precision arithmetic computes it: the sum accumulated from 0 in the order of the
  reads, divided by 10. On the readings 0.1, 0.2, ..., 1.0 the result is the single-precision
  value of 0.55. On ten normalised readings (between 0 and 1) the result is finite and within
  \<open>2\<^sup>-\<^sup>2\<^sup>0\<close> of the arithmetic mean of the ten readings.
\<close>

theorem analog_sampler:
  "readStableAnalog sensor w =
     (fdiv (foldl fadd (Fin 0) (stake 10 (analog w sensor))) (Fin 10),
      w\<lparr>analog := (analog w)(sensor := sdrop 10 (analog w sensor)),
        trace := trace w @ read_events sensor (stake 10 (analog w sensor))\<rparr>)
   \<and> fst (readStableAnalog sensor
        (w\<lparr>analog := (analog w)(sensor :=
             map round32 [0.1, 0.2, 0.3, 0.4, 0.5, 0.6, 0.7, 0.8, 0.9, 1.0] @- s)\<rparr>))
       = round32 0.55
   \<and> (list_all in_unit (stake 10 (analog w sensor)) \<longrightarrow>
        (\<exists>m. fst (readStableAnalog sensor w) = Fin m
           \<and> \<bar>m - sum_list (map the_real (stake 10 (analog w sensor))) / 10\<bar> \<le> 1 / 2 ^ 20))"
proof (intro conjI)
  show "readStableAnalog sensor w =
     (fdiv (foldl fadd (Fin 0) (stake 10 (analog w sensor))) (Fin 10),
      w\<lparr>analog := (analog w)(sensor := sdrop 10 (analog w sensor)),
        trace := trace w @ read_events sensor (stake 10 (analog w sensor))\<rparr>)"
    by (simp add: readStableAnalog_eq mean10_def)
  show "fst (readStableAnalog sensor
        (w\<lparr>analog := (analog w)(sensor :=
             map round32 [0.1, 0.2, 0.3, 0.4, 0.5, 0.6, 0.7, 0.8, 0.9, 1.0] @- s)\<rparr>))
       = round32 0.55"
    using mean10_canned [of s] by (simp add: readStableAnalog_eq)
  show "list_all in_unit (stake 10 (analog w sensor)) \<longrightarrow>
        (\<exists>m. fst (readStableAnalog sensor w) = Fin m
           \<and> \<bar>m - sum_list (map the_real (stake 10 (analog w sensor))) / 10\<bar> \<le> 1 / 2 ^ 20)"
    using mean10_near [of "analog w sensor"] by (simp add: readStableAnalog_eq)
qed

theorem analog_sampler_witness:
  "list_all in_unit
     (stake 10 (analog (initial_world
        (\<lambda>p. map round32 [0.1, 0.2, 0.3, 0.4, 0.5, 0.6, 0.7, 0.8, 0.9, 1.0] @- sconst (Fin 0))
        (sconst None) (sconst 0)) GasSensor))
   \<and> (\<exists>m. fst (readStableAnalog GasSensor (initial_world
        (\<lambda>p. map round32 [0.1, 0.2, 0.3, 0.4, 0.5, 0.6, 0.7, 0.8, 0.9, 1.0] @- sconst (Fin 0))
        (sconst None) (sconst 0))) = Fin m
      \<and> \<bar>m - sum_list (map the_real (stake 10 (analog (initial_world
        (\<lambda>p. map round32 [0.1, 0.2, 0.3, 0.4, 0.5, 0.6, 0.7, 0.8, 0.9, 1.0] @- sconst (Fin 0))
        (sconst None) (sconst 0)) GasSensor))) / 10\<bar> \<le> 1 / 2 ^ 20)"
proof -
  let ?W = "initial_world
        (\<lambda>p. map round32 [0.1, 0.2, 0.3, 0.4, 0.5, 0.6, 0.7, 0.8, 0.9, 1.0] @- sconst (Fin 0))
        (sconst None) (sconst 0)"
  have h: "list_all in_unit (stake 10 (analog ?W GasSensor))"
    by (simp add: initial_world_def stake_numeral in_unit_def float_eval)
  from analog_sampler [of GasSensor ?W] h show ?thesis by blast
qed

section \<open>The alarm evaluator\<close>

text \<open>
  C1. The gas block of \<^verbatim>\<open>checkSensors\<close>, run on the readings 0.3, 0.6, 0.6, 0.4 (the
  single-precision values of these decimals) from a state where \<^verbatim>\<open>lastGasDetected\<close> is
  false, writes nothing on the evaluation of index 0, "Gas detected!" on index 1, nothing
  on index 2 and "Gas no longer detected." on index 3. On every reading and in every state,
  it writes nothing when the outcome of the comparison with 0.5 is the one remembered in
  \<^verbatim>\<open>lastGasDetected\<close>, and exactly one of the two lines when it differs; afterwards
  \<^verbatim>\<open>gasDetected\<close> and \<^verbatim>\<open>lastGasDetected\<close> both hold the outcome.
\<close>

theorem gas_notifications:
  "run_steps (map check_gas_sensor [round32 0.3, round32 0.6, round32 0.6, round32 0.4])
      (w\<lparr>lastGasDetected := False\<rparr>)
     = [[], [SerialWrite (Literal (''Gas detected!'' @ CRLF))],
        [], [SerialWrite (Literal (''Gas no longer detected.'' @ CRLF))]]
   \<and> trace (check_gas_sensor g w) = trace w @
        (if fgt g (Fin 0.5) = lastGasDetected w then []
         else if fgt g (Fin 0.5) then [SerialWrite (Literal (''Gas detected!'' @ CRLF))]
         else [SerialWrite (Literal (''Gas no longer detected.'' @ CRLF))])
   \<and> gasDetected (check_gas_sensor g w) = fgt g (Fin 0.5)
   \<and> lastGasDetected (check_gas_sensor g w) = fgt g (Fin 0.5)"
  by (simp add: check_gas_sensor_eq round32_3_10 round32_2_5 round32_3_5)

text \<open>
  C3. After every call of \<^verbatim>\<open>checkSensors\<close>, from any state and on any samples,
  \<^verbatim>\<open>lastGasDetected\<close> equals \<^verbatim>\<open>gasDetected\<close> and \<^verbatim>\<open>lastTempExceeded\<close> equals
  \<^verbatim>\<open>tempExceeded\<close>.
\<close>

theorem edge_memory_equals_alarm_state:
  "lastGasDetected (checkSensors w) = gasDetected (checkSensors w)
   \<and> lastTempExceeded (checkSensors w) = tempExceeded (checkSensors w)"
  by (simp add: checkSensors_blocks)

section \<open>The periodic reporter\<close>

lemma word_no_wrap:
  fixes a b :: "32 word"
  shows "b \<le> a \<Longrightarrow> (1000 \<le> a - b) = (1000 \<le> unat a - unat b)"
  by (simp add: word_le_nat_alt unat_sub)

text \<open>
  The reporting block of \<^verbatim>\<open>checkSensors\<close> reads the ticker once; with \<open>currentTime\<close> the
  ticker value divided by 1000, it writes the status line, and sets \<^verbatim>\<open>lastPrintTime\<close> to
  \<open>currentTime\<close>, exactly when the \<^verbatim>\<open>uint32_t\<close> difference \<open>currentTime - lastPrintTime\<close> is
  at least 1000, and otherwise writes nothing and leaves \<^verbatim>\<open>lastPrintTime\<close> as it is. Called
  at the ticks 0, 400, 900 and 1050 ms with \<^verbatim>\<open>lastPrintTime\<close> 0, it writes the line at the
  fourth call only. As long as \<open>currentTime\<close> has not fallen below \<^verbatim>\<open>lastPrintTime\<close>, the
  \<^verbatim>\<open>uint32_t\<close> difference is the difference of the two numbers.
\<close>

lemma reporter_gate:
  "print_all_sensor_readings g w =
     w\<lparr>lastPrintTime :=
         (if 1000 \<le> shd (us_ticker w) div 1000 - lastPrintTime w
          then shd (us_ticker w) div 1000 else lastPrintTime w),
       us_ticker := stl (us_ticker w),
       trace := trace w @
         (if 1000 \<le> shd (us_ticker w) div 1000 - lastPrintTime w
          then [SerialWrite (Sprintf (''Gas: %.2f, LM35: %.2f C, Potentiometer: %.2f'' @ CRLF)
                  [g, lm35TempC w, potentiometerReading w])]
          else [])\<rparr>
   \<and> run_steps [print_all_sensor_readings g, print_all_sensor_readings g,
                print_all_sensor_readings g, print_all_sensor_readings g]
        (w\<lparr>lastPrintTime := 0,
           us_ticker := 0 ## 400000 ## 900000 ## 1050000 ## ticks\<rparr>)
       = [[], [], [],
          [SerialWrite (Sprintf (''Gas: %.2f, LM35: %.2f C, Potentiometer: %.2f'' @ CRLF)
             [g, lm35TempC w, potentiometerReading w])]]
   \<and> (lastPrintTime w \<le> shd (us_ticker w) div 1000 \<longrightarrow>
        (1000 \<le> shd (us_ticker w) div 1000 - lastPrintTime w)
          = (1000 \<le> unat (shd (us_ticker w) div 1000) - unat (lastPrintTime w)))"
proof (intro conjI)
  show "lastPrintTime w \<le> shd (us_ticker w) div 1000 \<longrightarrow>
        (1000 \<le> shd (us_ticker w) div 1000 - lastPrintTime w)
          = (1000 \<le> unat (shd (us_ticker w) div 1000) - unat (lastPrintTime w))"
    using word_no_wrap by blast
qed (simp_all add: print_all_sensor_readings_eq)

lemma reporter_gate_at_1050:
  "lastPrintTime (initial_world (\<lambda>p. sconst (Fin 0)) (sconst None) (1050000 ## sconst 0))
     \<le> shd (us_ticker (initial_world (\<lambda>p. sconst (Fin 0)) (sconst None) (1050000 ## sconst 0)))
         div 1000
   \<and> 1000 \<le> unat (shd (us_ticker
                 (initial_world (\<lambda>p. sconst (Fin 0)) (sconst None) (1050000 ## sconst 0)))
               div 1000)
             - unat (lastPrintTime
                 (initial_world (\<lambda>p. sconst (Fin 0)) (sconst None) (1050000 ## sconst 0)))
   \<and> trace (print_all_sensor_readings (Fin 0)
        (initial_world (\<lambda>p. sconst (Fin 0)) (sconst None) (1050000 ## sconst 0)))
       = [SerialWrite (Sprintf (''Gas: %.2f, LM35: %.2f C, Potentiometer: %.2f'' @ CRLF)
            [Fin 0, Fin 0, Fin 0])]"
  using reporter_gate [of "Fin 0"
      "initial_world (\<lambda>p. sconst (Fin 0)) (sconst None) (1050000 ## sconst 0)"]
  by (simp add: initial_world_def)

text \<open>
  C6. The claim is that the status line is written exactly when the current millisecond
  tick minus the tick of the last line is at least 1000, and the comments of the source say
  the same ("Print all sensor readings every 1 second", "Print every 1000 ms"). The code
  does not keep to it when the ticker wraps around. The ticker counts microseconds in 32
  bits, and the code divides it by 1000 before it subtracts, so \<open>currentTime\<close> falls from
  4294967 back to 0 and the \<^verbatim>\<open>uint32_t\<close> difference to a smaller \<^verbatim>\<open>lastPrintTime\<close> is large.
  With \<^verbatim>\<open>lastPrintTime\<close> 0 and the ticker at 4294900000, then 100000 microseconds later at
  32704: the first call writes the line and records the tick 4294900; the second call, at
  the tick 32, writes the line again, 100 ms after the last one, although 32 minus 4294900
  is below 1000.
\<close>

theorem reporter_after_ticker_wrap:
  "run_steps [print_all_sensor_readings g, print_all_sensor_readings g]
     (w\<lparr>lastPrintTime := 0, us_ticker := 4294900000 ## 32704 ## ticks\<rparr>)
     = [[SerialWrite (Sprintf (''Gas: %.2f, LM35: %.2f C, Potentiometer: %.2f'' @ CRLF)
           [g, lm35TempC w, potentiometerReading w])],
        [SerialWrite (Sprintf (''Gas: %.2f, LM35: %.2f C, Potentiometer: %.2f'' @ CRLF)
           [g, lm35TempC w, potentiometerReading w])]]
   \<and> lastPrintTime (print_all_sensor_readings g
         (w\<lparr>lastPrintTime := 0, us_ticker := 4294900000 ## 32704 ## ticks\<rparr>)) = 4294900
   \<and> shd (us_ticker (print_all_sensor_readings g
         (w\<lparr>lastPrintTime := 0, us_ticker := 4294900000 ## 32704 ## ticks\<rparr>))) div 1000 = 32
   \<and> (4294900000 :: 32 word) + 100000 = 32704
   \<and> int (unat (32 :: 32 word)) - int (unat (4294900 :: 32 word)) < 1000"
  by (simp add: print_all_sensor_readings_eq)

section \<open>The actuator step\<close>

text \<open>
  C5. The last block of \<^verbatim>\<open>checkSensors\<close>, in any state (whatever the edge memory holds): if
  \<^verbatim>\<open>gasDetected\<close> or \<^verbatim>\<open>tempExceeded\<close> is true, it sets the duty cycle of the buzzer to 0.5,
  inverts the LED, and writes "Gas Alarm" exactly when \<^verbatim>\<open>gasDetected\<close> is true and
  "Temperature Alarm" exactly when \<^verbatim>\<open>tempExceeded\<close> is true, in this order; otherwise it
  sets the duty cycle to 0.0 and the LED to off, and writes nothing. Every call of
  \<^verbatim>\<open>checkSensors\<close> ends with these events, for the flags that call has computed.
\<close>

theorem actuator_step:
  "control_buzzer_and_led w =
     w\<lparr>buzzer := (if gasDetected w \<or> tempExceeded w then Fin 0.5 else Fin 0),
       led := (if gasDetected w \<or> tempExceeded w then \<not> led w else False),
       trace := trace w @
         (if gasDetected w \<or> tempExceeded w
          then [BuzzerWrite (Fin 0.5), LedWrite (\<not> led w)]
               @ (if gasDetected w then [SerialWrite (Literal (''Gas Alarm'' @ CRLF))] else [])
               @ (if tempExceeded w
                  then [SerialWrite (Literal (''Temperature Alarm'' @ CRLF))] else [])
          else [BuzzerWrite (Fin 0), LedWrite False])\<rparr>
   \<and> buzzer (checkSensors w)
       = (if gasDetected (checkSensors w) \<or> tempExceeded (checkSensors w)
          then Fin 0.5 else Fin 0)
   \<and> led (checkSensors w)
       = (if gasDetected (checkSensors w) \<or> tempExceeded (checkSensors w)
          then \<not> led w else False)
   \<and> (\<exists>before. trace (checkSensors w) = before @
         (if gasDetected (checkSensors w) \<or> tempExceeded (checkSensors w)
          then [BuzzerWrite (Fin 0.5), LedWrite (\<not> led w)]
               @ (if gasDetected (checkSensors w)
                  then [SerialWrite (Literal (''Gas Alarm'' @ CRLF))] else [])
               @ (if tempExceeded (checkSensors w)
                  then [SerialWrite (Literal (''Temperature Alarm'' @ CRLF))] else [])
          else [BuzzerWrite (Fin 0), LedWrite False]))"
proof (intro conjI)
  show "\<exists>before. trace (checkSensors w) = before @
         (if gasDetected (checkSensors w) \<or> tempExceeded (checkSensors w)
          then [BuzzerWrite (Fin 0.5), LedWrite (\<not> led w)]
               @ (if gasDetected (checkSensors w)
                  then [SerialWrite (Literal (''Gas Alarm'' @ CRLF))] else [])
               @ (if tempExceeded (checkSensors w)
                  then [SerialWrite (Literal (''Temperature Alarm'' @ CRLF))] else [])
          else [BuzzerWrite (Fin 0), LedWrite False])"
    by (rule exI [where x = "trace (print_all_sensor_readings (mean10 (analog w GasSensor))
         (check_temperature
           (check_gas_sensor (mean10 (analog w GasSensor)) (snd (read_all_sensors w)))))"])
      (simp add: checkSensors_blocks)
qed (simp_all add: checkSensors_blocks)

section \<open>The console session\<close>

lemma pcSerialComCharRead_eq:
  "pcSerialComCharRead w = (polled (shd (uartUsb w)), w\<lparr>uartUsb := stl (uartUsb w)\<rparr>)"
  by (simp add: pcSerialComCharRead_def polled_def split: option.split)

lemma uartTask_eq:
  "uartTask w =
     (case command_body (polled (shd (uartUsb w))) of
        None \<Rightarrow> Some (w\<lparr>uartUsb := stl (uartUsb w)\<rparr>)
      | Some body \<Rightarrow>
          while_not_q body (polled (shd (uartUsb w))) (w\<lparr>uartUsb := stl (uartUsb w)\<rparr>))"
  by (simp add: uartTask_def pcSerialComCharRead_eq command_body_def)

lemmas stream_defs = stream_a_def stream_b_def stream_c_def stream_d_def stream_e_def
  stream_f_def AnalogIn_read_def pcSerialComStringWrite_def emit_def Let_def

lemma stream_ignores_uart:
  "ignores_uart stream_a" "ignores_uart stream_b" "ignores_uart stream_c"
  "ignores_uart stream_d" "ignores_uart stream_e" "ignores_uart stream_f"
  by (simp_all add: ignores_uart_def stream_defs)

lemma command_body_ignores_uart: "command_body c = Some body \<Longrightarrow> ignores_uart body"
  by (auto simp: command_body_def stream_ignores_uart split: if_splits)

lemma stream_flags:
  "gasDetected (stream_a w) = gasDetected w \<and> tempExceeded (stream_a w) = tempExceeded w"
  "gasDetected (stream_b w) = gasDetected w \<and> tempExceeded (stream_b w) = tempExceeded w"
  "gasDetected (stream_c w) = gasDetected w \<and> tempExceeded (stream_c w) = tempExceeded w"
  "gasDetected (stream_d w) = gasDetected w \<and> tempExceeded (stream_d w) = tempExceeded w"
  "gasDetected (stream_e w) = gasDetected w \<and> tempExceeded (stream_e w) = tempExceeded w"
  "gasDetected (stream_f w) = gasDetected w \<and> tempExceeded (stream_f w) = tempExceeded w"
  by (simp_all add: stream_defs)

lemma command_body_flags:
  "command_body c = Some body \<Longrightarrow>
     gasDetected (body w) = gasDetected w \<and> tempExceeded (body w) = tempExceeded w"
  by (auto simp: command_body_def stream_flags split: if_splits)

lemma uartUsb_body: "ignores_uart body \<Longrightarrow> uartUsb (body w) = uartUsb w"
proof -
  assume "ignores_uart body"
  then have "body (w\<lparr>uartUsb := uartUsb w\<rparr>) = (body w)\<lparr>uartUsb := uartUsb w\<rparr>"
    unfolding ignores_uart_def by blast
  then have "body w = (body w)\<lparr>uartUsb := uartUsb w\<rparr>" by simp
  then have "uartUsb (body w) = uartUsb ((body w)\<lparr>uartUsb := uartUsb w\<rparr>)" by simp
  then show ?thesis by simp
qed

lemma while_not_q_quit: "is_quit c \<Longrightarrow> while_not_q body c w = Some w"
  by (subst while_not_q.simps) (simp add: is_quit_def)

lemma while_not_q_step:
  "ignores_uart body \<Longrightarrow> \<not> is_quit c \<Longrightarrow>
     while_not_q body c w = while_not_q body (polled (shd (uartUsb w))) (turn body w)"
  by (subst while_not_q.simps)
    (simp add: is_quit_def pcSerialComCharRead_eq turn_def uartUsb_body sleep_for_def emit_def
      Let_def)

lemma uartUsb_turn: "uartUsb (turn body w) = stl (uartUsb w)"
  by (simp add: turn_def)

lemma while_not_q_returns:
  "ignores_uart body \<Longrightarrow> \<not> is_quit c \<Longrightarrow> \<forall>i<n. \<not> is_quit (polled (uartUsb w !! i))
     \<Longrightarrow> is_quit (polled (uartUsb w !! n))
     \<Longrightarrow> while_not_q body c w = Some ((turn body ^^ Suc n) w)"
proof (induction n arbitrary: c w)
  case 0
  then show ?case
    by (simp add: while_not_q_step while_not_q_quit)
next
  case (Suc n)
  from Suc.prems(3) have nq: "\<not> is_quit (polled (shd (uartUsb w)))"
    by (metis snth.simps(1) zero_less_Suc)
  have "while_not_q body (polled (shd (uartUsb w))) (turn body w)
          = Some ((turn body ^^ Suc n) (turn body w))"
  proof (rule Suc.IH [OF Suc.prems(1) nq])
    show "\<forall>i<n. \<not> is_quit (polled (uartUsb (turn body w) !! i))"
      using Suc.prems(3) by (auto simp: uartUsb_turn)
    show "is_quit (polled (uartUsb (turn body w) !! n))"
      using Suc.prems(4) by (simp add: uartUsb_turn)
  qed
  then show ?case
    by (simp add: while_not_q_step [OF Suc.prems(1,2)] funpow_swap1)
qed

lemma while_not_q_Some:
  assumes "while_not_q body c w = Some w'" and "ignores_uart body"
  shows "is_quit c \<or> (\<exists>n. is_quit (polled (uartUsb w !! n)))"
proof -
  have "ignores_uart body \<longrightarrow> is_quit c \<or> (\<exists>n. is_quit (polled (uartUsb w !! n)))"
  proof (rule while_not_q.raw_induct
      [where P = "\<lambda>body c w y. ignores_uart body
                    \<longrightarrow> is_quit c \<or> (\<exists>n. is_quit (polled (uartUsb w !! n)))",
       OF _ assms(1)])
    fix f :: "(world \<Rightarrow> world) \<Rightarrow> char \<Rightarrow> world \<Rightarrow> world option"
    fix body c w y
    assume IH: "\<And>b c w y. f b c w = Some y \<Longrightarrow>
        ignores_uart b \<longrightarrow> is_quit c \<or> (\<exists>n. is_quit (polled (uartUsb w !! n)))"
    assume eq: "(if \<not> (c = CHR ''q'' \<or> c = CHR ''Q'')
                 then let w1 = body w; w2 = sleep_for 200 w1; (c, w3) = pcSerialComCharRead w2
                      in f body c w3
                 else Some w) = Some y"
    show "ignores_uart body \<longrightarrow> is_quit c \<or> (\<exists>n. is_quit (polled (uartUsb w !! n)))"
    proof (intro impI, cases "is_quit c")
      case True
      then show "is_quit c \<or> (\<exists>n. is_quit (polled (uartUsb w !! n)))" by simp
    next
      case False
      assume k: "ignores_uart body"
      from eq False k have "f body (polled (shd (uartUsb w))) (turn body w) = Some y"
        by (simp add: is_quit_def pcSerialComCharRead_eq turn_def uartUsb_body sleep_for_def
            emit_def Let_def)
      from IH [OF this] k
      have "is_quit (polled (shd (uartUsb w)))
              \<or> (\<exists>n. is_quit (polled (uartUsb (turn body w) !! n)))" by blast
      then show "is_quit c \<or> (\<exists>n. is_quit (polled (uartUsb w !! n)))"
      proof
        assume "is_quit (polled (shd (uartUsb w)))"
        then have "is_quit (polled (uartUsb w !! 0))" by simp
        then show ?thesis by blast
      next
        assume "\<exists>n. is_quit (polled (uartUsb (turn body w) !! n))"
        then obtain n where "is_quit (polled (uartUsb w !! Suc n))"
          by (auto simp: uartUsb_turn)
        then show ?thesis by blast
      qed
    qed
  qed
  with assms(2) show ?thesis by blast
qed

lemma while_not_q_diverges:
  "ignores_uart body \<Longrightarrow> \<not> is_quit c \<Longrightarrow> \<forall>n. \<not> is_quit (polled (uartUsb w !! n))
     \<Longrightarrow> while_not_q body c w = None"
  using while_not_q_Some [of body c w] by (cases "while_not_q body c w") auto

text \<open>A loop that returns has run some number of turns.\<close>

lemma while_not_q_turns:
  assumes "while_not_q body c w = Some w'" and "ignores_uart body"
  shows "\<exists>n. w' = (turn body ^^ n) w"
proof (cases "is_quit c")
  case True
  with assms(1) have "w' = (turn body ^^ 0) w" by (simp add: while_not_q_quit)
  then show ?thesis by blast
next
  case False
  with while_not_q_Some [OF assms] obtain m where m: "is_quit (polled (uartUsb w !! m))"
    by blast
  define n where "n = (LEAST m. is_quit (polled (uartUsb w !! m)))"
  have n: "is_quit (polled (uartUsb w !! n))"
    unfolding n_def using m by (rule LeastI)
  have "\<forall>i<n. \<not> is_quit (polled (uartUsb w !! i))"
    unfolding n_def using not_less_Least by blast
  from while_not_q_returns [OF assms(2) False this n] assms(1)
  have "w' = (turn body ^^ Suc n) w" by simp
  then show ?thesis by blast
qed

lemma command_body_not_quit: "command_body c = Some body \<Longrightarrow> \<not> is_quit c"
  by (auto simp: command_body_def is_quit_def split: if_splits)

lemma turn_upd:
  "ignores_uart body \<Longrightarrow> turn body (w\<lparr>uartUsb := u\<rparr>) = (sleep_for 200 (body w))\<lparr>uartUsb := stl u\<rparr>"
  by (simp add: turn_def ignores_uart_def sleep_for_def emit_def)

lemma turns_upd:
  "ignores_uart body \<Longrightarrow>
     (turn body ^^ k) (w\<lparr>uartUsb := u\<rparr>)
       = (((\<lambda>v. sleep_for 200 (body v)) ^^ k) w)\<lparr>uartUsb := sdrop k u\<rparr>"
proof (induction k arbitrary: w u)
  case 0
  show ?case by simp
next
  case (Suc k)
  have "(turn body ^^ Suc k) (w\<lparr>uartUsb := u\<rparr>)
          = (turn body ^^ k) ((sleep_for 200 (body w))\<lparr>uartUsb := stl u\<rparr>)"
    by (simp add: funpow_swap1 turn_upd [OF Suc.prems])
  also have "\<dots> = (((\<lambda>v. sleep_for 200 (body v)) ^^ k) (sleep_for 200 (body w)))
                      \<lparr>uartUsb := sdrop k (stl u)\<rparr>"
    by (rule Suc.IH [OF Suc.prems])
  also have "((\<lambda>v. sleep_for 200 (body v)) ^^ k) (sleep_for 200 (body w))
               = ((\<lambda>v. sleep_for 200 (body v)) ^^ Suc k) w"
    by (simp only: funpow_Suc_right o_apply)
  finally show ?case by simp
qed

lemma uartTask_a_q:
  "uartTask (w\<lparr>uartUsb := Some (CHR ''a'') ## Some (CHR ''q'') ## u\<rparr>)
     = Some (turn stream_a (w\<lparr>uartUsb := Some (CHR ''q'') ## u\<rparr>))"
  using while_not_q_returns [of stream_a "CHR ''a''" 0 "w\<lparr>uartUsb := Some (CHR ''q'') ## u\<rparr>"]
  by (simp add: uartTask_eq command_body_def polled_def is_quit_def stream_ignores_uart)

text \<open>
  C10. \<^verbatim>\<open>uartTask\<close> polls once and, for a command byte, enters the loop of that command
  (for any other byte, and when nothing is readable, it returns at once). In a loop, a turn
  drops the outcome of its poll and continues with the same body whatever the outcome was,
  unless it is \<^verbatim>\<open>q\<close> or \<^verbatim>\<open>Q\<close>: when the first \<open>n\<close> polls are neither (be they command
  letters, other bytes or no data) and the next one is, the loop returns after exactly
  \<open>n + 1\<close> turns of the body of the command it was started for, and the state it returns
  depends on the polled bytes through their number only. When no poll ever yields \<^verbatim>\<open>q\<close>
  or \<^verbatim>\<open>Q\<close>, the loop does not return.
\<close>

theorem streaming_ignores_other_bytes:
  "uartTask (w\<lparr>uartUsb := x ## u\<rparr>) =
     (case command_body (polled x) of
        None \<Rightarrow> Some (w\<lparr>uartUsb := u\<rparr>)
      | Some body \<Rightarrow> while_not_q body (polled x) (w\<lparr>uartUsb := u\<rparr>))
   \<and> (command_body c = Some body \<longrightarrow>
        turn body (w\<lparr>uartUsb := x ## u\<rparr>) = (sleep_for 200 (body w))\<lparr>uartUsb := u\<rparr>)
   \<and> (command_body c = Some body \<longrightarrow> (\<forall>i<n. \<not> is_quit (polled (u !! i)))
        \<longrightarrow> is_quit (polled (u !! n)) \<longrightarrow>
        while_not_q body c (w\<lparr>uartUsb := u\<rparr>)
          = Some ((((\<lambda>v. sleep_for 200 (body v)) ^^ Suc n) w)\<lparr>uartUsb := sdrop (Suc n) u\<rparr>))
   \<and> (command_body c = Some body \<longrightarrow> (\<forall>i. \<not> is_quit (polled (silent !! i))) \<longrightarrow>
        while_not_q body c (w\<lparr>uartUsb := silent\<rparr>) = None)"
proof (intro conjI impI)
  show "uartTask (w\<lparr>uartUsb := x ## u\<rparr>) =
     (case command_body (polled x) of
        None \<Rightarrow> Some (w\<lparr>uartUsb := u\<rparr>)
      | Some body \<Rightarrow> while_not_q body (polled x) (w\<lparr>uartUsb := u\<rparr>))"
    by (simp add: uartTask_eq split: option.split)
next
  assume "command_body c = Some body"
  then show "turn body (w\<lparr>uartUsb := x ## u\<rparr>) = (sleep_for 200 (body w))\<lparr>uartUsb := u\<rparr>"
    by (simp add: turn_upd command_body_ignores_uart)
next
  assume c: "command_body c = Some body"
    and n: "\<forall>i<n. \<not> is_quit (polled (u !! i))" "is_quit (polled (u !! n))"
  have "while_not_q body c (w\<lparr>uartUsb := u\<rparr>) = Some ((turn body ^^ Suc n) (w\<lparr>uartUsb := u\<rparr>))"
    using n by (intro while_not_q_returns command_body_ignores_uart [OF c]
        command_body_not_quit [OF c]) simp_all
  then show "while_not_q body c (w\<lparr>uartUsb := u\<rparr>)
          = Some ((((\<lambda>v. sleep_for 200 (body v)) ^^ Suc n) w)\<lparr>uartUsb := sdrop (Suc n) u\<rparr>)"
    by (simp only: turns_upd [OF command_body_ignores_uart [OF c]])
next
  assume c: "command_body c = Some body" and n: "\<forall>i. \<not> is_quit (polled (silent !! i))"
  then show "while_not_q body c (w\<lparr>uartUsb := silent\<rparr>) = None"
    by (intro while_not_q_diverges command_body_ignores_uart [OF c]
        command_body_not_quit [OF c]) simp
qed

theorem streaming_ignores_other_bytes_witness:
  "command_body (CHR ''a'') = Some stream_a
   \<and> \<not> is_quit (polled (Some (CHR ''b''))) \<and> \<not> is_quit (polled None)
   \<and> \<not> is_quit (polled (Some (CHR ''c''))) \<and> is_quit (polled (Some (CHR ''q'')))
   \<and> uartTask ((initial_world (\<lambda>p. sconst (Fin 0)) (sconst None) (sconst 0))
        \<lparr>uartUsb := Some (CHR ''a'') ## Some (CHR ''b'') ## None ## Some (CHR ''c'')
                      ## Some (CHR ''q'') ## sconst None\<rparr>)
       = Some ((((\<lambda>v. sleep_for 200 (stream_a v)) ^^ 4)
                  (initial_world (\<lambda>p. sconst (Fin 0)) (sconst None) (sconst 0)))
               \<lparr>uartUsb := sconst None\<rparr>)
   \<and> while_not_q stream_a (CHR ''a'')
        ((initial_world (\<lambda>p. sconst (Fin 0)) (sconst None) (sconst 0))\<lparr>uartUsb := sconst None\<rparr>)
       = None"
proof -
  let ?W = "initial_world (\<lambda>p. sconst (Fin 0)) (sconst None) (sconst 0)"
  let ?u = "Some (CHR ''b'') ## None ## Some (CHR ''c'') ## Some (CHR ''q'') ## sconst None"
  have c: "command_body (CHR ''a'') = Some stream_a"
    by (simp add: command_body_def)
  have q: "\<not> is_quit (polled (Some (CHR ''b'')))" "\<not> is_quit (polled None)"
    "\<not> is_quit (polled (Some (CHR ''c'')))" "is_quit (polled (Some (CHR ''q'')))"
    by (simp_all add: is_quit_def polled_def)
  have h1: "\<forall>i<3. \<not> is_quit (polled (?u !! i))"
    using q by (simp add: numeral_3_eq_3 less_Suc_eq)
  have h2: "is_quit (polled (?u !! 3))"
    using q by (simp add: numeral_3_eq_3)
  have h3: "\<forall>i. \<not> is_quit (polled (sconst None !! i))"
    by (simp add: is_quit_def polled_def)
  have p: "polled (Some (CHR ''a'')) = CHR ''a''"
    by (simp add: polled_def)
  from streaming_ignores_other_bytes
    [where w = ?W and x = "Some (CHR ''a'')" and u = ?u and c = "CHR ''a''" and body = stream_a
       and n = 3 and silent = "sconst None"]
    c q h1 h2 h3 p
  show ?thesis by (simp add: eval_nat_numeral)
qed

section \<open>The command \<^verbatim>\<open>a\<close>\<close>

lemma turn_stream_a:
  "turn stream_a w =
     w\<lparr>potentiometerReading := shd (analog w Potentiometer),
       analog := (analog w)(Potentiometer := stl (analog w Potentiometer)),
       uartUsb := stl (uartUsb w),
       trace := trace w @ potentiometer_turn (shd (analog w Potentiometer))\<rparr>"
  by (simp add: turn_def stream_a_def AnalogIn_read_def pcSerialComStringWrite_def sleep_for_def
      emit_def Let_def potentiometer_turn_def)

lemma turns_stream_a:
  "trace ((turn stream_a ^^ k) w)
     = trace w @ concat (map potentiometer_turn (stake k (analog w Potentiometer)))
   \<and> uartUsb ((turn stream_a ^^ k) w) = sdrop k (uartUsb w)"
proof (induction k arbitrary: w)
  case 0
  show ?case by simp
next
  case (Suc k)
  have "(turn stream_a ^^ Suc k) w = (turn stream_a ^^ k) (turn stream_a w)"
    by (simp only: funpow_Suc_right o_apply)
  then show ?case
    by (simp add: Suc.IH) (simp add: turn_stream_a)
qed

text \<open>
  C8. With the byte \<^verbatim>\<open>a\<close> at the first poll and \<^verbatim>\<open>q\<close> at the next, \<^verbatim>\<open>uartTask\<close>
  returns after one single read of the potentiometer (no averaging), one
  "Potentiometer reading" line for the value read and one pause of 200 ms. In general, when
  the first \<open>n\<close> polls after \<^verbatim>\<open>a\<close> are neither \<^verbatim>\<open>q\<close> nor \<^verbatim>\<open>Q\<close> and the next one is, it
  returns after \<open>n + 1\<close> such turns, each on one fresh read; when no poll ever yields
  \<^verbatim>\<open>q\<close> or \<^verbatim>\<open>Q\<close>, it does not return.
\<close>

theorem console_a_then_q:
  "uartTask (w\<lparr>uartUsb := Some (CHR ''a'') ## Some (CHR ''q'') ## u\<rparr>)
     = Some (w\<lparr>potentiometerReading := shd (analog w Potentiometer),
               analog := (analog w)(Potentiometer := stl (analog w Potentiometer)),
               uartUsb := u,
               trace := trace w @
                 [AnalogRead Potentiometer (shd (analog w Potentiometer)),
                  SerialWrite (Sprintf (''Potentiometer reading: %.2f'' @ CRLF)
                                 [shd (analog w Potentiometer)]),
                  SleepFor 200]\<rparr>)
   \<and> ((\<forall>i<n. \<not> is_quit (polled (u !! i))) \<longrightarrow> is_quit (polled (u !! n)) \<longrightarrow>
        (\<exists>w'. uartTask (w\<lparr>uartUsb := Some (CHR ''a'') ## u\<rparr>) = Some w'
           \<and> uartUsb w' = sdrop (Suc n) u
           \<and> trace w' = trace w @
               concat (map potentiometer_turn (stake (Suc n) (analog w Potentiometer)))))
   \<and> ((\<forall>i. \<not> is_quit (polled (silent !! i))) \<longrightarrow>
        uartTask (w\<lparr>uartUsb := Some (CHR ''a'') ## silent\<rparr>) = None)"
proof (intro conjI impI)
  show "uartTask (w\<lparr>uartUsb := Some (CHR ''a'') ## Some (CHR ''q'') ## u\<rparr>)
     = Some (w\<lparr>potentiometerReading := shd (analog w Potentiometer),
               analog := (analog w)(Potentiometer := stl (analog w Potentiometer)),
               uartUsb := u,
               trace := trace w @
                 [AnalogRead Potentiometer (shd (analog w Potentiometer)),
                  SerialWrite (Sprintf (''Potentiometer reading: %.2f'' @ CRLF)
                                 [shd (analog w Potentiometer)]),
                  SleepFor 200]\<rparr>)"
    by (simp add: uartTask_a_q turn_stream_a potentiometer_turn_def)
next
  have a: "command_body (CHR ''a'') = Some stream_a" "\<not> is_quit (CHR ''a'')"
    by (simp_all add: command_body_def is_quit_def)
  have t: "uartTask (w\<lparr>uartUsb := Some (CHR ''a'') ## v\<rparr>)
             = while_not_q stream_a (CHR ''a'') (w\<lparr>uartUsb := v\<rparr>)" for v
    by (simp add: uartTask_eq a(1) polled_def)
  {
    assume n: "\<forall>i<n. \<not> is_quit (polled (u !! i))" "is_quit (polled (u !! n))"
    have "while_not_q stream_a (CHR ''a'') (w\<lparr>uartUsb := u\<rparr>)
            = Some ((turn stream_a ^^ Suc n) (w\<lparr>uartUsb := u\<rparr>))"
      using n by (intro while_not_q_returns stream_ignores_uart a(2)) simp_all
    then show "\<exists>w'. uartTask (w\<lparr>uartUsb := Some (CHR ''a'') ## u\<rparr>) = Some w'
           \<and> uartUsb w' = sdrop (Suc n) u
           \<and> trace w' = trace w @
               concat (map potentiometer_turn (stake (Suc n) (analog w Potentiometer)))"
      using turns_stream_a [of "Suc n" "w\<lparr>uartUsb := u\<rparr>"] by (simp add: t)
  }
  {
    assume "\<forall>i. \<not> is_quit (polled (silent !! i))"
    then show "uartTask (w\<lparr>uartUsb := Some (CHR ''a'') ## silent\<rparr>) = None"
      unfolding t by (intro while_not_q_diverges stream_ignores_uart a(2)) simp
  }
qed

theorem console_a_then_q_witness:
  "\<not> is_quit (polled None) \<and> is_quit (polled (Some (CHR ''Q'')))
   \<and> (\<exists>w'. uartTask ((initial_world (\<lambda>p. Fin 0.25 ## Fin 0.5 ## sconst (Fin 0)) (sconst None)
                (sconst 0))\<lparr>uartUsb := Some (CHR ''a'') ## None ## Some (CHR ''Q'') ## sconst None\<rparr>)
          = Some w'
        \<and> uartUsb w' = sconst None
        \<and> trace w' = potentiometer_turn (Fin 0.25) @ potentiometer_turn (Fin 0.5))
   \<and> uartTask ((initial_world (\<lambda>p. Fin 0.25 ## Fin 0.5 ## sconst (Fin 0)) (sconst None)
                (sconst 0))\<lparr>uartUsb := Some (CHR ''a'') ## sconst None\<rparr>) = None"
proof -
  let ?W = "initial_world (\<lambda>p. Fin 0.25 ## Fin 0.5 ## sconst (Fin 0)) (sconst None) (sconst 0)"
  let ?u = "None ## Some (CHR ''Q'') ## sconst None"
  have q: "\<not> is_quit (polled None)" "is_quit (polled (Some (CHR ''Q'')))"
    by (simp_all add: is_quit_def polled_def)
  have h1: "\<forall>i<1. \<not> is_quit (polled (?u !! i))"
    using q by simp
  have h2: "is_quit (polled (?u !! 1))"
    using q by simp
  have h3: "\<forall>i. \<not> is_quit (polled (sconst None !! i))"
    by (simp add: is_quit_def polled_def)
  have s: "stake (Suc 1) (analog ?W Potentiometer) = [Fin 0.25, Fin 0.5]"
    "sdrop (Suc 1) ?u = sconst None" "trace ?W = []"
    by (simp_all add: initial_world_def)
  from console_a_then_q [where w = ?W and u = ?u and n = 1 and silent = "sconst None"]
    h1 h2 h3 q
  show ?thesis unfolding s by simp
qed

section \<open>Who writes the alarm flags\<close>

lemma turn_flags:
  "command_body c = Some body \<Longrightarrow>
     gasDetected (turn body w) = gasDetected w \<and> tempExceeded (turn body w) = tempExceeded w"
  by (simp add: turn_def sleep_for_def emit_def command_body_flags)

lemma turns_flags:
  "command_body c = Some body \<Longrightarrow>
     gasDetected ((turn body ^^ n) w) = gasDetected w
     \<and> tempExceeded ((turn body ^^ n) w) = tempExceeded w"
  by (induction n) (simp_all add: turn_flags)

lemma uartTask_flags:
  assumes "uartTask w = Some w'"
  shows "gasDetected w' = gasDetected w \<and> tempExceeded w' = tempExceeded w"
proof (cases "command_body (polled (shd (uartUsb w)))")
  case None
  with assms show ?thesis by (auto simp: uartTask_eq)
next
  case (Some body)
  with assms have "while_not_q body (polled (shd (uartUsb w))) (w\<lparr>uartUsb := stl (uartUsb w)\<rparr>)
      = Some w'"
    by (simp add: uartTask_eq)
  from while_not_q_turns [OF this command_body_ignores_uart [OF Some]]
  obtain n where "w' = (turn body ^^ n) (w\<lparr>uartUsb := stl (uartUsb w)\<rparr>)" by blast
  then show ?thesis
    by (simp add: turns_flags [OF Some])
qed

lemma main_setup_flags:
  "gasDetected (main_setup w) = gasDetected w \<and> tempExceeded (main_setup w) = tempExceeded w"
  by (simp add: main_setup_def availableCommands_def buzzer_write_def
      pcSerialComStringWrite_def emit_def Let_def)

lemma checkSensors_flags:
  "gasDetected (checkSensors w) = fgt (fst (readStableAnalog GasSensor w)) (Fin 0.5)"
  "lm35TempC (checkSensors w)
     = analogReadingScaledWithTheLM35Formula (fst (readStableAnalog Lm35 w))"
  "tempExceeded (checkSensors w) = fgt (lm35TempC (checkSensors w)) (Fin 24)"
  by (simp_all add: checkSensors_blocks readStableAnalog_eq)

lemma fgt_irrefl: "\<not> fgt x x"
  by (cases x) simp_all

text \<open>
  C2. After every call of \<^verbatim>\<open>checkSensors\<close>, \<^verbatim>\<open>gasDetected\<close> is the outcome of
  \<open>gasReading > 0.5\<close> for the gas reading sampled by that call, \<^verbatim>\<open>lm35TempC\<close> is the LM35
  formula applied to the temperature reading sampled by that call, and \<^verbatim>\<open>tempExceeded\<close> is
  the outcome of \<open>lm35TempC > 24\<close>; when the temperature is exactly 24, \<^verbatim>\<open>tempExceeded\<close> is
  false. Nothing else writes the two flags: \<^verbatim>\<open>uartTask\<close>, when it returns, each turn of
  its streaming loops, the start-up code of \<^verbatim>\<open>main\<close>, \<^verbatim>\<open>availableCommands\<close>,
  \<^verbatim>\<open>readStableAnalog\<close>, the two serial functions and the pauses leave them as they are.
\<close>

theorem alarm_flags_are_thresholds:
  "gasDetected (checkSensors w) = fgt (fst (readStableAnalog GasSensor w)) (Fin 0.5)
   \<and> lm35TempC (checkSensors w)
       = analogReadingScaledWithTheLM35Formula (fst (readStableAnalog Lm35 w))
   \<and> tempExceeded (checkSensors w) = fgt (lm35TempC (checkSensors w)) (Fin 24)
   \<and> (lm35TempC (checkSensors w) = Fin 24 \<longrightarrow> \<not> tempExceeded (checkSensors w))
   \<and> (uartTask w = Some w' \<longrightarrow>
        gasDetected w' = gasDetected w \<and> tempExceeded w' = tempExceeded w)
   \<and> (command_body c = Some body \<longrightarrow>
        gasDetected (turn body w) = gasDetected w \<and> tempExceeded (turn body w) = tempExceeded w)
   \<and> gasDetected (main_setup w) = gasDetected w \<and> tempExceeded (main_setup w) = tempExceeded w
   \<and> gasDetected (availableCommands w) = gasDetected w
   \<and> tempExceeded (availableCommands w) = tempExceeded w
   \<and> gasDetected (snd (readStableAnalog sensor w)) = gasDetected w
   \<and> tempExceeded (snd (readStableAnalog sensor w)) = tempExceeded w
   \<and> gasDetected (pcSerialComStringWrite str w) = gasDetected w
   \<and> tempExceeded (pcSerialComStringWrite str w) = tempExceeded w
   \<and> gasDetected (snd (pcSerialComCharRead w)) = gasDetected w
   \<and> tempExceeded (snd (pcSerialComCharRead w)) = tempExceeded w
   \<and> gasDetected (sleep_for ms w) = gasDetected w \<and> tempExceeded (sleep_for ms w) = tempExceeded w"
  using uartTask_flags [of w w'] turn_flags [of c body w] main_setup_flags [of w]
  by (simp add: checkSensors_flags fgt_irrefl sleep_for_def emit_def availableCommands_def
      pcSerialComStringWrite_def pcSerialComCharRead_eq readStableAnalog_eq)

lemma lm35_24:
  "mean10 (ten_times (Fin (9761289 / 134217728)) @- s) = Fin (9761289 / 134217728)"
  "round32 (1610612685 / 67108864) = Fin 24"
   apply (simp add: mean10_def ten_times_def stake_numeral float_eval)
  apply (simp add: float_eval)
  done

theorem alarm_flags_are_thresholds_witness:
  "lm35TempC (checkSensors (initial_world
      (\<lambda>p. ten_times (Fin (9761289 / 134217728)) @- sconst (Fin 0))
      (Some (CHR ''a'') ## Some (CHR ''q'') ## sconst None) (sconst 0))) = Fin 24
   \<and> \<not> tempExceeded (checkSensors (initial_world
      (\<lambda>p. ten_times (Fin (9761289 / 134217728)) @- sconst (Fin 0))
      (Some (CHR ''a'') ## Some (CHR ''q'') ## sconst None) (sconst 0)))
   \<and> (\<exists>w'. uartTask (initial_world
      (\<lambda>p. ten_times (Fin (9761289 / 134217728)) @- sconst (Fin 0))
      (Some (CHR ''a'') ## Some (CHR ''q'') ## sconst None) (sconst 0)) = Some w'
      \<and> \<not> gasDetected w' \<and> \<not> tempExceeded w')
   \<and> command_body (CHR ''a'') = Some stream_a
   \<and> \<not> gasDetected (turn stream_a (initial_world
      (\<lambda>p. ten_times (Fin (9761289 / 134217728)) @- sconst (Fin 0))
      (Some (CHR ''a'') ## Some (CHR ''q'') ## sconst None) (sconst 0)))"
proof -
  let ?W = "initial_world (\<lambda>p. ten_times (Fin (9761289 / 134217728)) @- sconst (Fin 0))
      (Some (CHR ''a'') ## Some (CHR ''q'') ## sconst None) (sconst 0)"
  let ?W' = "turn stream_a (?W\<lparr>uartUsb := Some (CHR ''q'') ## sconst None\<rparr>)"
  have t: "lm35TempC (checkSensors ?W) = Fin 24"
    by (simp add: checkSensors_blocks initial_world_def lm35_24
        analogReadingScaledWithTheLM35Formula_def)
  have "?W = ?W\<lparr>uartUsb := Some (CHR ''a'') ## Some (CHR ''q'') ## sconst None\<rparr>"
    by (simp add: initial_world_def)
  then have u: "uartTask ?W = Some ?W'"
    using uartTask_a_q [where w = ?W and u = "sconst None"] by simp
  have c: "command_body (CHR ''a'') = Some stream_a"
    by (simp add: command_body_def)
  have g: "\<not> gasDetected ?W" "\<not> tempExceeded ?W"
    by (simp_all add: initial_world_def)
  from alarm_flags_are_thresholds
    [where w = ?W and w' = ?W' and c = "CHR ''a''" and body = stream_a] t u c g
  show ?thesis by simp
qed

section \<open>The order of the events of one turn of the main loop\<close>

lemma stream_extends_trace:
  "\<exists>ev. trace (stream_a w) = trace w @ ev" "\<exists>ev. trace (stream_b w) = trace w @ ev"
  "\<exists>ev. trace (stream_c w) = trace w @ ev" "\<exists>ev. trace (stream_d w) = trace w @ ev"
  "\<exists>ev. trace (stream_e w) = trace w @ ev" "\<exists>ev. trace (stream_f w) = trace w @ ev"
  by (simp_all add: stream_defs)

lemma command_body_extends_trace:
  "command_body c = Some body \<Longrightarrow> \<exists>ev. trace (body w) = trace w @ ev"
  by (auto simp: command_body_def stream_extends_trace split: if_splits)

lemma turn_extends_trace:
  assumes "command_body c = Some body"
  shows "\<exists>ev. trace (turn body w) = trace w @ ev"
proof -
  from command_body_extends_trace [OF assms] obtain ev where "trace (body w) = trace w @ ev"
    by blast
  then have "trace (turn body w) = trace w @ (ev @ [SleepFor 200])"
    by (simp add: turn_def sleep_for_def emit_def)
  then show ?thesis by blast
qed

lemma turns_extend_trace:
  assumes "command_body c = Some body"
  shows "\<exists>ev. trace ((turn body ^^ n) w) = trace w @ ev"
proof (induction n)
  case 0
  show ?case by simp
next
  case (Suc n)
  then obtain ev where ev: "trace ((turn body ^^ n) w) = trace w @ ev" by blast
  from turn_extends_trace [OF assms, of "(turn body ^^ n) w"] obtain ev'
    where "trace (turn body ((turn body ^^ n) w)) = trace ((turn body ^^ n) w) @ ev'" by blast
  with ev have "trace ((turn body ^^ Suc n) w) = trace w @ (ev @ ev')" by simp
  then show ?case by blast
qed

lemma uartTask_extends_trace:
  assumes "uartTask w = Some w'"
  shows "\<exists>ev. trace w' = trace w @ ev"
proof (cases "command_body (polled (shd (uartUsb w)))")
  case None
  with assms show ?thesis by (auto simp: uartTask_eq)
next
  case (Some body)
  with assms have "while_not_q body (polled (shd (uartUsb w))) (w\<lparr>uartUsb := stl (uartUsb w)\<rparr>)
      = Some w'"
    by (simp add: uartTask_eq)
  from while_not_q_turns [OF this command_body_ignores_uart [OF Some]]
  obtain n where "w' = (turn body ^^ n) (w\<lparr>uartUsb := stl (uartUsb w)\<rparr>)" by blast
  with turns_extend_trace [OF Some, of n "w\<lparr>uartUsb := stl (uartUsb w)\<rparr>"]
  show ?thesis by simp
qed

lemma main_iteration_trace:
  assumes "main_iteration w = Some w'"
  shows "\<exists>console. trace w' = trace (checkSensors w) @ console @ [SleepFor 200]"
proof -
  from assms obtain w2 where w2: "uartTask (checkSensors w) = Some w2"
    and w': "w' = sleep_for 200 w2"
    by (auto simp: main_iteration_def Let_def split: option.splits)
  from uartTask_extends_trace [OF w2] obtain ev where "trace w2 = trace (checkSensors w) @ ev"
    by blast
  with w' have "trace w' = trace (checkSensors w) @ ev @ [SleepFor 200]"
    by (simp add: sleep_for_def emit_def)
  then show ?thesis by blast
qed

text \<open>
  C9. The events of one call of \<^verbatim>\<open>checkSensors\<close> are, in this order: the thirty reads
  (ten of the gas sensor, ten of the LM35, ten of the potentiometer, each followed by its
  pause); the notifications of the evaluation; the status line, when it is due; the writes
  to the buzzer and the LED, followed by the alarm lines. The flags are the comparisons of
  the gas reading \<open>g\<close> and the temperature \<open>t\<close> computed from the reads of this call, and the
  status line prints these same \<open>g\<close> and \<open>t\<close> and the potentiometer reading \<open>p\<close> of this call.
  A turn of the main loop that returns consists of these events, then those of
  \<^verbatim>\<open>uartTask\<close>, then the pause of 200 ms.
\<close>

theorem iteration_order:
  "(let g = mean10 (analog w GasSensor);
        t = analogReadingScaledWithTheLM35Formula (mean10 (analog w Lm35));
        p = mean10 (analog w Potentiometer)
    in trace (checkSensors w) = trace w
         @ (read_events GasSensor (stake 10 (analog w GasSensor))
            @ read_events Lm35 (stake 10 (analog w Lm35))
            @ read_events Potentiometer (stake 10 (analog w Potentiometer)))
         @ ((if fgt g (Fin 0.5) = lastGasDetected w then []
             else if fgt g (Fin 0.5) then [SerialWrite (Literal (''Gas detected!'' @ CRLF))]
             else [SerialWrite (Literal (''Gas no longer detected.'' @ CRLF))])
            @ (if fgt t (Fin 24) = lastTempExceeded w then []
               else if fgt t (Fin 24)
               then [SerialWrite
                       (Literal (''ALERT: LM35 temperature exceeds 24'' @ DEG @ ''C!'' @ CRLF))]
               else [SerialWrite (Literal (''LM35 temperature below 24'' @ DEG @ ''C.'' @ CRLF))]))
         @ (if 1000 \<le> shd (us_ticker w) div 1000 - lastPrintTime w
            then [SerialWrite
                    (Sprintf (''Gas: %.2f, LM35: %.2f C, Potentiometer: %.2f'' @ CRLF) [g, t, p])]
            else [])
         @ (if fgt g (Fin 0.5) \<or> fgt t (Fin 24)
            then [BuzzerWrite (Fin 0.5), LedWrite (\<not> led w)]
                 @ (if fgt g (Fin 0.5) then [SerialWrite (Literal (''Gas Alarm'' @ CRLF))] else [])
                 @ (if fgt t (Fin 24)
                    then [SerialWrite (Literal (''Temperature Alarm'' @ CRLF))] else [])
            else [BuzzerWrite (Fin 0), LedWrite False])
       \<and> g = fst (readStableAnalog GasSensor w)
       \<and> t = analogReadingScaledWithTheLM35Formula (fst (readStableAnalog Lm35 w))
       \<and> p = fst (readStableAnalog Potentiometer w)
       \<and> gasDetected (checkSensors w) = fgt g (Fin 0.5)
       \<and> tempExceeded (checkSensors w) = fgt t (Fin 24))
   \<and> (main_iteration w = Some w' \<longrightarrow>
        (\<exists>console. trace w' = trace (checkSensors w) @ console @ [SleepFor 200]))"
proof (intro conjI impI)
  show "main_iteration w = Some w' \<Longrightarrow>
        \<exists>console. trace w' = trace (checkSensors w) @ console @ [SleepFor 200]"
    by (rule main_iteration_trace)
qed (simp add: Let_def checkSensors_blocks readStableAnalog_eq)

lemma checkSensors_uartUsb: "uartUsb (checkSensors w) = uartUsb w"
  by (simp add: checkSensors_blocks)

theorem iteration_order_witness:
  "\<exists>w'. main_iteration (initial_world (\<lambda>p. sconst (Fin 0)) (sconst None) (sconst 0)) = Some w'
     \<and> (\<exists>console. trace w'
          = trace (checkSensors (initial_world (\<lambda>p. sconst (Fin 0)) (sconst None) (sconst 0)))
            @ console @ [SleepFor 200])"
proof -
  let ?W = "initial_world (\<lambda>p. sconst (Fin 0)) (sconst None) (sconst 0)"
  have u: "uartUsb ?W = sconst None"
    by (simp add: initial_world_def)
  have m: "main_iteration ?W = Some (sleep_for 200 ((checkSensors ?W)\<lparr>uartUsb := sconst None\<rparr>))"
    by (simp add: main_iteration_def uartTask_eq checkSensors_uartUsb u polled_def
        command_body_def)
  from iteration_order [THEN conjunct2, of ?W] m show ?thesis by blast
qed

end
